theory Spec2Isabelle
  imports Main
begin

section \<open>Decoded JSON and the Python operations the client applies to it\<close>

text \<open>
  The client (\<^verbatim>\<open>custom_components/tech/tech.py\<close>) works on what
  \<^verbatim>\<open>response.json()\<close> decodes: dicts with string keys, lists, strings, integers, booleans
  and \<^verbatim>\<open>None\<close>.  Python checks no type before it applies \<^verbatim>\<open>.get\<close>, \<^verbatim>\<open>in\<close>,
  subscription, iteration or truth testing, so each of these is modelled on every decoded
  value, with the exception Python raises where the value has no such operation.  Numbers
  are integers: the API transmits identifiers, states and temperatures (in tenths of a
  degree) as JSON integers, and JSON reals are outside the model.  A dict is an association
  list whose first binding of a key is the one that counts.
\<close>

datatype json =
    JNull
  | JBool bool
  | JInt int
  | JStr string
  | JList "json list"
  | JObj "(string \<times> json) list"

text \<open>
  A Python \<^verbatim>\<open>float\<close> that is finite is an integer multiple of a power of two:
  \<open>Finite m e\<close> stands for \<open>m * 2 ^ e\<close>.  A binary64 value has \<open>\<bar>m\<bar> < 2 ^ 53\<close>
  and \<open>- 1074 \<le> e\<close>.
\<close>

datatype pyfloat = Finite int int | PosInf | NegInf | NaN

text \<open>
  The exceptions that can leave a method of the client.  \<open>TechError\<close> and
  \<open>TechLoginError\<close> carry \<^verbatim>\<open>status_code\<close> and \<^verbatim>\<open>message\<close>; \<open>ClientError\<close> is
  \<^verbatim>\<open>aiohttp.ClientError\<close> with its text; the others are Python's built-in exceptions.
\<close>

datatype error =
    TechError int string
  | TechLoginError int string
  | ClientError string
  | TimeoutError
  | KeyError string
  | AttributeError
  | TypeError
  | OverflowError
  | ValueError
  | RuntimeError

text \<open>\<^verbatim>\<open>class TechLoginError(TechError)\<close>: its constructor prefixes the message.\<close>

definition new_TechLoginError :: "int \<Rightarrow> string \<Rightarrow> error" where
  "new_TechLoginError status_code message = TechLoginError status_code (''Login failed: '' @ message)"

text \<open>\<^verbatim>\<open>isinstance(e, TechError)\<close>, what \<^verbatim>\<open>except TechError\<close> catches: the class and its subclass.\<close>

fun is_TechError :: "error \<Rightarrow> bool" where
  "is_TechError (TechError _ _) = True"
| "is_TechError (TechLoginError _ _) = True"
| "is_TechError _ = False"

fun is_TechLoginError :: "error \<Rightarrow> bool" where
  "is_TechLoginError (TechLoginError _ _) = True"
| "is_TechLoginError _ = False"

text \<open>Python's truth value of a decoded value (\<^verbatim>\<open>if x:\<close>, \<^verbatim>\<open>not x\<close>).\<close>

fun truthy :: "json \<Rightarrow> bool" where
  "truthy JNull = False"
| "truthy (JBool b) = b"
| "truthy (JInt i) = (i \<noteq> 0)"
| "truthy (JStr s) = (s \<noteq> [])"
| "truthy (JList xs) = (xs \<noteq> [])"
| "truthy (JObj kvs) = (kvs \<noteq> [])"

text \<open>\<^verbatim>\<open>d.get(k, default)\<close>: only a dict has the method.\<close>

fun py_get :: "json \<Rightarrow> string \<Rightarrow> json \<Rightarrow> error + json" where
  "py_get (JObj kvs) k dflt = (case map_of kvs k of Some v \<Rightarrow> Inr v | None \<Rightarrow> Inr dflt)"
| "py_get _ k dflt = Inl AttributeError"

text \<open>\<^verbatim>\<open>d[k]\<close> with a string \<open>k\<close>: a missing key raises KeyError; a list or a string
  takes integer indices only, and the other values cannot be subscripted.\<close>

fun py_getitem :: "json \<Rightarrow> string \<Rightarrow> error + json" where
  "py_getitem (JObj kvs) k = (case map_of kvs k of Some v \<Rightarrow> Inr v | None \<Rightarrow> Inl (KeyError k))"
| "py_getitem _ k = Inl TypeError"

text \<open>\<^verbatim>\<open>p in s\<close> on strings: \<open>p\<close> occurs in \<open>s\<close> as a contiguous run.\<close>

fun is_substring :: "string \<Rightarrow> string \<Rightarrow> bool" where
  "is_substring p [] = (p = [])"
| "is_substring p (c # cs) = (take (length p) (c # cs) = p \<or> is_substring p cs)"

text \<open>\<^verbatim>\<open>k in x\<close> with a string \<open>k\<close>: a key of a dict, an element of a list, a substring
  of a string; \<^verbatim>\<open>None\<close>, booleans and integers are not iterable.\<close>

fun py_contains :: "string \<Rightarrow> json \<Rightarrow> error + bool" where
  "py_contains k (JObj kvs) = Inr (map_of kvs k \<noteq> None)"
| "py_contains k (JList xs) = Inr (JStr k \<in> set xs)"
| "py_contains k (JStr s) = Inr (is_substring k s)"
| "py_contains k _ = Inl TypeError"

text \<open>The keys of a dict in the order of their first binding.\<close>

definition dict_keys :: "(string \<times> json) list \<Rightarrow> string list" where
  "dict_keys kvs = rev (remdups (rev (map fst kvs)))"

text \<open>\<^verbatim>\<open>for x in v\<close>: the elements of a list, the keys of a dict, the characters of a
  string.\<close>

fun py_iter :: "json \<Rightarrow> error + json list" where
  "py_iter (JList xs) = Inr xs"
| "py_iter (JObj kvs) = Inr (map JStr (dict_keys kvs))"
| "py_iter (JStr s) = Inr (map (\<lambda>c. JStr [c]) s)"
| "py_iter _ = Inl TypeError"

text \<open>
  The keys of the cache dicts.  Python hashes a key and compares with \<^verbatim>\<open>==\<close>, so
  \<^verbatim>\<open>True\<close> and \<^verbatim>\<open>1\<close> are one key, as are \<^verbatim>\<open>False\<close> and \<^verbatim>\<open>0\<close>; a list or a
  dict is unhashable.
\<close>

datatype key = KNone | KInt int | KStr string

fun py_key :: "json \<Rightarrow> error + key" where
  "py_key JNull = Inr KNone"
| "py_key (JBool b) = Inr (KInt (if b then 1 else 0))"
| "py_key (JInt i) = Inr (KInt i)"
| "py_key (JStr s) = Inr (KStr s)"
| "py_key (JList _) = Inl TypeError"
| "py_key (JObj _) = Inl TypeError"

text \<open>The decimal text of an integer, as an f-string formats it.\<close>

fun str_nat :: "nat \<Rightarrow> string" where
  "str_nat n =
     (if n < 10 then [''0123456789'' ! n]
      else str_nat (n div 10) @ [''0123456789'' ! (n mod 10)])"

declare str_nat.simps [simp del]

definition str_int :: "int \<Rightarrow> string" where
  "str_int i = (if i < 0 then CHR ''-'' # str_nat (nat (- i)) else str_nat (nat i))"

text \<open>An f-string field holding an \<^verbatim>\<open>Optional[str]\<close>.\<close>

fun fmt_opt :: "string option \<Rightarrow> string" where
  "fmt_opt None = ''None''"
| "fmt_opt (Some s) = s"

section \<open>Binary64 arithmetic of \<^verbatim>\<open>int(target_temp * 10)\<close>\<close>

text \<open>The number of binary digits of a natural number.\<close>

fun bitlen :: "nat \<Rightarrow> nat" where
  "bitlen n = (if n = 0 then 0 else Suc (bitlen (n div 2)))"

declare bitlen.simps [simp del]

text \<open>Division by \<open>2 ^ k\<close> rounded to the nearest integer, a tie to the even one.\<close>

definition round_shift :: "int \<Rightarrow> nat \<Rightarrow> int" where
  "round_shift m k =
     (let q = m div 2 ^ k; r = m mod 2 ^ k
      in if 2 * r > 2 ^ k \<or> (2 * r = 2 ^ k \<and> odd q) then q + 1 else q)"

text \<open>
  The binary64 value nearest to \<open>m * 2 ^ e\<close> (IEEE 754 round-to-nearest, ties to even):
  at most 53 significant bits, no exponent below \<open>- 1074\<close>, and an infinity from
  \<open>2 ^ 1024\<close> on.
\<close>

definition round_binary64 :: "int \<Rightarrow> int \<Rightarrow> pyfloat" where
  "round_binary64 m e =
     (let k = nat (max (max (int (bitlen (nat \<bar>m\<bar>)) - 53) (- 1074 - e)) 0);
          m' = round_shift m k;
          e' = e + int k
      in if int (bitlen (nat \<bar>m'\<bar>)) + e' > 1024 then (if m' < 0 then NegInf else PosInf)
         else Finite m' e')"

text \<open>\<^verbatim>\<open>x * 10\<close> for a float \<open>x\<close>: the integer becomes \<open>10.0\<close>, the product is rounded.\<close>

fun float_mul_10 :: "pyfloat \<Rightarrow> pyfloat" where
  "float_mul_10 (Finite m e) = round_binary64 (m * 10) e"
| "float_mul_10 PosInf = PosInf"
| "float_mul_10 NegInf = NegInf"
| "float_mul_10 NaN = NaN"

text \<open>\<^verbatim>\<open>int(x)\<close> for a float: truncation towards zero; an infinity raises OverflowError,
  a NaN raises ValueError.\<close>

fun py_int :: "pyfloat \<Rightarrow> error + int" where
  "py_int (Finite m e) =
     (if 0 \<le> e then Inr (m * 2 ^ nat e)
      else if 0 \<le> m then Inr (m div 2 ^ nat (- e))
      else Inr (- ((- m) div 2 ^ nat (- e))))"
| "py_int PosInf = Inl OverflowError"
| "py_int NegInf = Inl OverflowError"
| "py_int NaN = Inl ValueError"

section \<open>The client and its transport\<close>

text \<open>
  What the aiohttp session is asked to send: the method, the URL, a snapshot of the
  headers, the body (the dict that \<^verbatim>\<open>json.dumps\<close> serialises) and the total timeout.
\<close>

record request =
  req_method :: string
  url :: string
  req_headers :: "string \<rightharpoonup> string"
  body :: "json option"
  timeout :: int

text \<open>What \<^verbatim>\<open>await response.json()\<close> does with a body: it decodes, raises
  \<^verbatim>\<open>json.JSONDecodeError\<close>, or raises an \<^verbatim>\<open>aiohttp.ClientError\<close> (a content type
  that is not JSON).\<close>

datatype json_outcome = Decoded json | JSONDecodeError string | JsonClientError string

text \<open>What the session does with a request: a response with its status, text and JSON
  decoding, an \<^verbatim>\<open>aiohttp.ClientError\<close>, or the expiry of the total timeout.\<close>

datatype http_outcome = Response int string json_outcome | RaisesClientError string | RaisesTimeout

text \<open>
  What the module takes from outside: the server behind the session; Python's \<^verbatim>\<open>str\<close>
  on a decoded value (used for \<^verbatim>\<open>str(result["user_id"])\<close> and for the token in the
  \<^verbatim>\<open>Authorization\<close> header); and \<^verbatim>\<open>TECH_SUPPORTED_LANGUAGES\<close> of \<^verbatim>\<open>const.py\<close>.
\<close>

record env =
  net :: "request \<Rightarrow> http_outcome"
  py_str :: "json \<Rightarrow> string"
  TECH_SUPPORTED_LANGUAGES :: "string list"

text \<open>One entry of \<^verbatim>\<open>self.modules\<close>: \<^verbatim>\<open>{"last_update": ..., "zones": {}, "tiles": {}}\<close>.\<close>

record module_rec =
  last_update :: "pyfloat option"
  zones :: "key \<rightharpoonup> json"
  tiles :: "key \<rightharpoonup> json"

text \<open>
  The attributes of a \<^verbatim>\<open>Tech\<close> object.  \<open>session\<close> is the aiohttp session, seen as
  the requests issued through it so far, oldest first, and \<open>session_closed\<close> is its
  \<^verbatim>\<open>closed\<close> property.  \<open>token\<close> and \<open>authenticated\<close> hold whatever the
  server's answer held, so they are decoded values (\<open>JNull\<close> is \<^verbatim>\<open>None\<close>).  \<^verbatim>\<open>update_lock\<close> has no field: one call runs at a time here, so the lock
  is free whenever \<^verbatim>\<open>module_data\<close> takes it and free again when it returns or raises.
\<close>

record client =
  base_url :: string
  session :: "request list"
  session_closed :: bool
  headers :: "string \<rightharpoonup> string"
  user_id :: "string option"
  token :: json
  authenticated :: json
  client_last_update :: "pyfloat option"
  modules :: "string \<rightharpoonup> module_rec"

definition TECH_API_URL :: string where
  "TECH_API_URL = ''https://emodul.eu/api/v1/''"

definition DEFAULT_TIMEOUT :: int where
  "DEFAULT_TIMEOUT = 30"

definition DEFAULT_HEADERS :: "string \<rightharpoonup> string" where
  "DEFAULT_HEADERS =
     [''Accept'' \<mapsto> ''application/json'', ''Accept-Encoding'' \<mapsto> ''gzip'',
      ''Content-Type'' \<mapsto> ''application/json'']"

definition rstrip_slash :: "string \<Rightarrow> string" where
  "rstrip_slash s = rev (dropWhile (\<lambda>c. c = CHR ''/'') (rev s))"

definition lstrip_slash :: "string \<Rightarrow> string" where
  "lstrip_slash s = dropWhile (\<lambda>c. c = CHR ''/'') s"

text \<open>\<^verbatim>\<open>Tech.__init__(session, user_id, token, base_url)\<close> on a session that has sent
  nothing yet: credentials are taken when both are given and non-empty.\<close>

definition init :: "string option \<Rightarrow> string option \<Rightarrow> string \<Rightarrow> client" where
  "init uid tok url0 =
     (case (uid, tok) of
        (Some u, Some t) \<Rightarrow>
          if u \<noteq> [] \<and> t \<noteq> [] then
            \<lparr>base_url = rstrip_slash url0 @ ''/'', session = [], session_closed = False,
             headers = DEFAULT_HEADERS(''Authorization'' \<mapsto> ''Bearer '' @ t),
             user_id = Some u, token = JStr t, authenticated = JBool True,
             client_last_update = None, modules = Map.empty\<rparr>
          else
            \<lparr>base_url = rstrip_slash url0 @ ''/'', session = [], session_closed = False,
             headers = DEFAULT_HEADERS,
             user_id = None, token = JNull, authenticated = JBool False,
             client_last_update = None, modules = Map.empty\<rparr>
      | _ \<Rightarrow>
            \<lparr>base_url = rstrip_slash url0 @ ''/'', session = [], session_closed = False,
             headers = DEFAULT_HEADERS,
             user_id = None, token = JNull, authenticated = JBool False,
             client_last_update = None, modules = Map.empty\<rparr>)"

text \<open>The result of a method: what it returns or raises, and the object afterwards.\<close>

type_synonym 'a outcome = "(error + 'a) \<times> client"

text \<open>
  \<^verbatim>\<open>_make_request(method, path, data, timeout)\<close>.  The \<^verbatim>\<open>try\<close> turns an
  \<^verbatim>\<open>aiohttp.ClientError\<close> into \<open>TechError 500\<close>; a timeout is not caught here, nor
  is the RuntimeError with which a closed session refuses a request.
\<close>

definition make_request ::
  "env \<Rightarrow> string \<Rightarrow> string \<Rightarrow> json option \<Rightarrow> int \<Rightarrow> client \<Rightarrow> json outcome" where
  "make_request E meth path dat tmo s =
     (let rq = \<lparr>req_method = meth, url = base_url s @ lstrip_slash path,
                req_headers = headers s, body = dat, timeout = tmo\<rparr>;
          s' = s\<lparr>session := session s @ [rq]\<rparr>
      in if session_closed s then (Inl RuntimeError, s)
         else case net E rq of
           RaisesClientError m \<Rightarrow> (Inl (TechError 500 (''HTTP client error: '' @ m)), s')
         | RaisesTimeout \<Rightarrow> (Inl TimeoutError, s')
         | Response status response_text js \<Rightarrow>
             if status \<noteq> 200 then (Inl (TechError status response_text), s')
             else (case js of
                     Decoded v \<Rightarrow> (Inr v, s')
                   | JSONDecodeError m \<Rightarrow>
                       (Inl (TechError 500 (''Invalid JSON response: '' @ m)), s')
                   | JsonClientError m \<Rightarrow>
                       (Inl (TechError 500 (''HTTP client error: '' @ m)), s')))"

text \<open>
  The decorator \<^verbatim>\<open>handle_api_errors\<close>: \<open>fname\<close> is \<^verbatim>\<open>func.__name__\<close>.  Without
  authentication it raises \<^verbatim>\<open>TechError(401, "Not authenticated")\<close> before the function
  runs; it turns a client error into status 500 and a timeout into status 408, and lets
  every other exception pass.
\<close>

definition handle_api_errors :: "string \<Rightarrow> (client \<Rightarrow> 'a outcome) \<Rightarrow> client \<Rightarrow> 'a outcome" where
  "handle_api_errors fname func s =
     (if \<not> truthy (authenticated s) \<and> fname \<notin> set [''authenticate'']
      then (Inl (TechError 401 ''Not authenticated''), s)
      else (case func s of
              (Inl (ClientError m), s') \<Rightarrow> (Inl (TechError 500 (''HTTP client error: '' @ m)), s')
            | (Inl TimeoutError, s') \<Rightarrow> (Inl (TechError 408 ''Request timeout''), s')
            | r \<Rightarrow> r))"

definition get :: "env \<Rightarrow> string \<Rightarrow> client \<Rightarrow> json outcome" where
  "get E path = handle_api_errors ''get'' (make_request E ''GET'' path None DEFAULT_TIMEOUT)"

definition post :: "env \<Rightarrow> string \<Rightarrow> json \<Rightarrow> client \<Rightarrow> json outcome" where
  "post E path dat =
     handle_api_errors ''post'' (make_request E ''POST'' path (Some dat) DEFAULT_TIMEOUT)"

text \<open>
  \<^verbatim>\<open>authenticate(username, password)\<close>, which the decorator does not wrap.  It returns
  \<^verbatim>\<open>self.authenticated\<close>, the value the answer held under \<^verbatim>\<open>"authenticated"\<close>.
\<close>

definition authenticate :: "env \<Rightarrow> string \<Rightarrow> string \<Rightarrow> client \<Rightarrow> json outcome" where
  "authenticate E username password s =
     (let auth_data = JObj [(''username'', JStr username), (''password'', JStr password)]
      in case make_request E ''POST'' ''authentication'' (Some auth_data) DEFAULT_TIMEOUT s of
           (Inl e, s1) \<Rightarrow>
             if is_TechError e then (Inl (new_TechLoginError 401 ''Authentication failed''), s1)
             else (Inl e, s1)
         | (Inr result, s1) \<Rightarrow>
             (case py_get result ''authenticated'' (JBool False) of
                Inl e \<Rightarrow> (Inl e, s1)
              | Inr a \<Rightarrow>
                  let s2 = s1\<lparr>authenticated := a\<rparr>
                  in if truthy a then
                       (case py_getitem result ''user_id'' of
                          Inl e \<Rightarrow> (Inl e, s2)
                        | Inr u \<Rightarrow>
                            let s3 = s2\<lparr>user_id := Some (py_str E u)\<rparr>
                            in (case py_getitem result ''token'' of
                                  Inl e \<Rightarrow> (Inl e, s3)
                                | Inr t \<Rightarrow>
                                    (Inr a,
                                     s3\<lparr>token := t,
                                        headers := (headers s3)
                                          (''Authorization'' \<mapsto> ''Bearer '' @ py_str E t)\<rparr>)))
                     else (Inr a, s2)))"

definition list_modules :: "env \<Rightarrow> client \<Rightarrow> json outcome" where
  "list_modules E =
     handle_api_errors ''list_modules''
       (\<lambda>s. get E (''users/'' @ fmt_opt (user_id s) @ ''/modules'') s)"

definition get_module_data :: "env \<Rightarrow> string \<Rightarrow> client \<Rightarrow> json outcome" where
  "get_module_data E module_udid =
     handle_api_errors ''get_module_data''
       (\<lambda>s. get E (''users/'' @ fmt_opt (user_id s) @ ''/modules/'' @ module_udid) s)"

definition get_translations :: "env \<Rightarrow> string \<Rightarrow> client \<Rightarrow> json outcome" where
  "get_translations E language =
     handle_api_errors ''get_translations''
       (\<lambda>s. let language' = (if language \<notin> set (TECH_SUPPORTED_LANGUAGES E) then ''en''
                              else language)
            in get E (''i18n/'' @ language') s)"

section \<open>The module cache\<close>

definition initialize_module_data :: "string \<Rightarrow> client \<Rightarrow> client" where
  "initialize_module_data module_udid s =
     (if module_udid \<notin> dom (modules s)
      then s\<lparr>modules := (modules s)
               (module_udid \<mapsto> \<lparr>last_update = None, zones = Map.empty, tiles = Map.empty\<rparr>)\<rparr>
      else s)"

text \<open>A list comprehension \<^verbatim>\<open>[x for x in xs if cond(x)]\<close> whose condition may raise.\<close>

fun comprehension :: "(json \<Rightarrow> error + bool) \<Rightarrow> json list \<Rightarrow> error + json list" where
  "comprehension cond [] = Inr []"
| "comprehension cond (x # xs) =
     (case cond x of
        Inl e \<Rightarrow> Inl e
      | Inr keep \<Rightarrow>
          (case comprehension cond xs of
             Inl e \<Rightarrow> Inl e
           | Inr kept \<Rightarrow> Inr (if keep then x # kept else kept)))"

text \<open>The condition of \<^verbatim>\<open>_filter_zones\<close>, a chain of \<^verbatim>\<open>and\<close> that stops at the first
  false operand.\<close>

definition zone_condition :: "json \<Rightarrow> error + bool" where
  "zone_condition zone =
     (if zone = JNull then Inr False
      else (case py_contains ''zone'' zone of
              Inl e \<Rightarrow> Inl e
            | Inr in_zone \<Rightarrow>
                if \<not> in_zone then Inr False
                else (case py_getitem zone ''zone'' of
                        Inl e \<Rightarrow> Inl e
                      | Inr z \<Rightarrow>
                          if z = JNull then Inr False
                          else (case py_contains ''visibility'' z of
                                  Inl e \<Rightarrow> Inl e
                                | Inr in_z \<Rightarrow>
                                    if \<not> in_z then Inr False
                                    else (case py_get z ''zoneState'' JNull of
                                            Inl e \<Rightarrow> Inl e
                                          | Inr st \<Rightarrow>
                                              Inr (st \<noteq> JStr ''zoneUnregistered''))))))"

definition filter_zones :: "json \<Rightarrow> error + json list" where
  "filter_zones zones_in =
     (case py_iter zones_in of Inl e \<Rightarrow> Inl e | Inr xs \<Rightarrow> comprehension zone_condition xs)"

text \<open>The condition of \<^verbatim>\<open>_filter_tiles\<close>: \<^verbatim>\<open>tile.get("visibility", False)\<close>.\<close>

definition tile_condition :: "json \<Rightarrow> error + bool" where
  "tile_condition tile =
     (case py_get tile ''visibility'' (JBool False) of Inl e \<Rightarrow> Inl e | Inr v \<Rightarrow> Inr (truthy v))"

definition filter_tiles :: "json \<Rightarrow> error + json list" where
  "filter_tiles tiles_in =
     (case py_iter tiles_in of Inl e \<Rightarrow> Inl e | Inr xs \<Rightarrow> comprehension tile_condition xs)"

text \<open>A \<^verbatim>\<open>for\<close> loop over a list whose body mutates the object and may raise.\<close>

fun for_each :: "(json \<Rightarrow> client \<Rightarrow> unit outcome) \<Rightarrow> json list \<Rightarrow> client \<Rightarrow> unit outcome" where
  "for_each step [] s = (Inr (), s)"
| "for_each step (x # xs) s =
     (case step x s of (Inl e, s') \<Rightarrow> (Inl e, s') | (Inr _, s') \<Rightarrow> for_each step xs s')"

text \<open>\<^verbatim>\<open>self.modules[module_udid]["zones"][zone_id] = zone\<close> and its twin for tiles.\<close>

definition set_zone_entry :: "string \<Rightarrow> json \<Rightarrow> json \<Rightarrow> client \<Rightarrow> unit outcome" where
  "set_zone_entry module_udid zone_id zone s =
     (case modules s module_udid of
        None \<Rightarrow> (Inl (KeyError module_udid), s)
      | Some m \<Rightarrow>
          (case py_key zone_id of
             Inl e \<Rightarrow> (Inl e, s)
           | Inr k \<Rightarrow>
               (Inr (), s\<lparr>modules := (modules s)(module_udid \<mapsto> m\<lparr>zones := (zones m)(k \<mapsto> zone)\<rparr>)\<rparr>)))"

definition set_tile_entry :: "string \<Rightarrow> json \<Rightarrow> json \<Rightarrow> client \<Rightarrow> unit outcome" where
  "set_tile_entry module_udid tile_id tile s =
     (case modules s module_udid of
        None \<Rightarrow> (Inl (KeyError module_udid), s)
      | Some m \<Rightarrow>
          (case py_key tile_id of
             Inl e \<Rightarrow> (Inl e, s)
           | Inr k \<Rightarrow>
               (Inr (), s\<lparr>modules := (modules s)(module_udid \<mapsto> m\<lparr>tiles := (tiles m)(k \<mapsto> tile)\<rparr>)\<rparr>)))"

text \<open>The body of \<^verbatim>\<open>for zone in filtered_zones\<close>: \<^verbatim>\<open>zone_id = zone["zone"]["id"]\<close>, then
  the store.\<close>

definition store_zone :: "string \<Rightarrow> json \<Rightarrow> client \<Rightarrow> unit outcome" where
  "store_zone module_udid zone s =
     (case py_getitem zone ''zone'' of
        Inl e \<Rightarrow> (Inl e, s)
      | Inr z \<Rightarrow>
          (case py_getitem z ''id'' of
             Inl e \<Rightarrow> (Inl e, s)
           | Inr zone_id \<Rightarrow> set_zone_entry module_udid zone_id zone s))"

text \<open>The body of \<^verbatim>\<open>for tile in filtered_tiles\<close>: \<^verbatim>\<open>tile_id = tile["id"]\<close>, then the
  store.\<close>

definition store_tile :: "string \<Rightarrow> json \<Rightarrow> client \<Rightarrow> unit outcome" where
  "store_tile module_udid tile s =
     (case py_getitem tile ''id'' of
        Inl e \<Rightarrow> (Inl e, s)
      | Inr tile_id \<Rightarrow> set_tile_entry module_udid tile_id tile s)"

text \<open>Filtering and merging, the lines that \<^verbatim>\<open>get_module_zones\<close> and \<^verbatim>\<open>module_data\<close>
  both run on a non-empty \<^verbatim>\<open>zones\<close> (and on \<^verbatim>\<open>tiles\<close>).\<close>

definition update_zones :: "string \<Rightarrow> json \<Rightarrow> client \<Rightarrow> unit outcome" where
  "update_zones module_udid zones_in s =
     (case filter_zones zones_in of
        Inl e \<Rightarrow> (Inl e, s)
      | Inr filtered_zones \<Rightarrow> for_each (store_zone module_udid) filtered_zones s)"

definition update_tiles :: "string \<Rightarrow> json \<Rightarrow> client \<Rightarrow> unit outcome" where
  "update_tiles module_udid tiles_in s =
     (case filter_tiles tiles_in of
        Inl e \<Rightarrow> (Inl e, s)
      | Inr filtered_tiles \<Rightarrow> for_each (store_tile module_udid) filtered_tiles s)"

text \<open>\<^verbatim>\<open>result.get("zones", {}).get("elements", [])\<close> and \<^verbatim>\<open>result.get("tiles", [])\<close>.\<close>

definition payload_zones :: "json \<Rightarrow> error + json" where
  "payload_zones result =
     (case py_get result ''zones'' (JObj []) of
        Inl e \<Rightarrow> Inl e
      | Inr z \<Rightarrow> py_get z ''elements'' (JList []))"

definition payload_tiles :: "json \<Rightarrow> error + json" where
  "payload_tiles result = py_get result ''tiles'' (JList [])"

text \<open>\<^verbatim>\<open>return self.modules[module_udid]["zones"]\<close> and its twin.\<close>

definition cached_zones :: "string \<Rightarrow> client \<Rightarrow> (key \<rightharpoonup> json) outcome" where
  "cached_zones module_udid s =
     (case modules s module_udid of
        None \<Rightarrow> (Inl (KeyError module_udid), s)
      | Some m \<Rightarrow> (Inr (zones m), s))"

definition cached_tiles :: "string \<Rightarrow> client \<Rightarrow> (key \<rightharpoonup> json) outcome" where
  "cached_tiles module_udid s =
     (case modules s module_udid of
        None \<Rightarrow> (Inl (KeyError module_udid), s)
      | Some m \<Rightarrow> (Inr (tiles m), s))"

text \<open>A decorated method is the decorator applied to the function as written, which is
  named \<open>_body\<close> here.\<close>

definition get_module_zones_body ::
  "env \<Rightarrow> string \<Rightarrow> client \<Rightarrow> (key \<rightharpoonup> json) outcome" where
  "get_module_zones_body E module_udid s =
     (case get_module_data E module_udid (initialize_module_data module_udid s) of
        (Inl e, s1) \<Rightarrow> (Inl e, s1)
      | (Inr result, s1) \<Rightarrow>
          (case payload_zones result of
             Inl e \<Rightarrow> (Inl e, s1)
           | Inr zones_in \<Rightarrow>
               if \<not> truthy zones_in then cached_zones module_udid s1
               else (case update_zones module_udid zones_in s1 of
                       (Inl e, s2) \<Rightarrow> (Inl e, s2)
                     | (Inr _, s2) \<Rightarrow> cached_zones module_udid s2)))"

definition get_module_zones :: "env \<Rightarrow> string \<Rightarrow> client \<Rightarrow> (key \<rightharpoonup> json) outcome" where
  "get_module_zones E module_udid =
     handle_api_errors ''get_module_zones'' (get_module_zones_body E module_udid)"

definition get_module_tiles_body ::
  "env \<Rightarrow> string \<Rightarrow> client \<Rightarrow> (key \<rightharpoonup> json) outcome" where
  "get_module_tiles_body E module_udid s =
     (case get_module_data E module_udid (initialize_module_data module_udid s) of
        (Inl e, s1) \<Rightarrow> (Inl e, s1)
      | (Inr result, s1) \<Rightarrow>
          (case payload_tiles result of
             Inl e \<Rightarrow> (Inl e, s1)
           | Inr tiles_in \<Rightarrow>
               if \<not> truthy tiles_in then cached_tiles module_udid s1
               else (case update_tiles module_udid tiles_in s1 of
                       (Inl e, s2) \<Rightarrow> (Inl e, s2)
                     | (Inr _, s2) \<Rightarrow> cached_tiles module_udid s2)))"

definition get_module_tiles :: "env \<Rightarrow> string \<Rightarrow> client \<Rightarrow> (key \<rightharpoonup> json) outcome" where
  "get_module_tiles E module_udid =
     handle_api_errors ''get_module_tiles'' (get_module_tiles_body E module_udid)"

text \<open>The last two lines of \<^verbatim>\<open>module_data\<close>: the stamp and the returned record.\<close>

definition stamp_module :: "string \<Rightarrow> pyfloat \<Rightarrow> client \<Rightarrow> module_rec outcome" where
  "stamp_module module_udid now s =
     (case modules s module_udid of
        None \<Rightarrow> (Inl (KeyError module_udid), s)
      | Some m \<Rightarrow>
          (Inr (m\<lparr>last_update := Some now\<rparr>),
           s\<lparr>modules := (modules s)(module_udid \<mapsto> m\<lparr>last_update := Some now\<rparr>)\<rparr>))"

text \<open>\<^verbatim>\<open>module_data(module_udid)\<close>; \<open>now\<close> is what \<^verbatim>\<open>time.time()\<close> returns at its start.\<close>

definition module_data_body ::
  "env \<Rightarrow> pyfloat \<Rightarrow> string \<Rightarrow> client \<Rightarrow> module_rec outcome" where
  "module_data_body E now module_udid s =
     (case get_module_data E module_udid (initialize_module_data module_udid s) of
        (Inl e, s1) \<Rightarrow> (Inl e, s1)
      | (Inr result, s1) \<Rightarrow>
          (case payload_zones result of
             Inl e \<Rightarrow> (Inl e, s1)
           | Inr zones_in \<Rightarrow>
               (case (if truthy zones_in then update_zones module_udid zones_in s1
                      else (Inr (), s1)) of
                  (Inl e, s2) \<Rightarrow> (Inl e, s2)
                | (Inr _, s2) \<Rightarrow>
                    (case payload_tiles result of
                       Inl e \<Rightarrow> (Inl e, s2)
                     | Inr tiles_in \<Rightarrow>
                         (case (if truthy tiles_in
                                then update_tiles module_udid tiles_in s2
                                else (Inr (), s2)) of
                            (Inl e, s3) \<Rightarrow> (Inl e, s3)
                          | (Inr _, s3) \<Rightarrow> stamp_module module_udid now s3)))))"

definition module_data :: "env \<Rightarrow> pyfloat \<Rightarrow> string \<Rightarrow> client \<Rightarrow> module_rec outcome" where
  "module_data E now module_udid =
     handle_api_errors ''module_data'' (module_data_body E now module_udid)"

definition get_zone :: "env \<Rightarrow> string \<Rightarrow> int \<Rightarrow> client \<Rightarrow> json outcome" where
  "get_zone E module_udid zone_id s =
     (case get_module_zones E module_udid s of
        (Inl e, s1) \<Rightarrow> (Inl e, s1)
      | (Inr _, s1) \<Rightarrow>
          (case modules s1 module_udid of
             None \<Rightarrow> (Inl (KeyError module_udid), s1)
           | Some m \<Rightarrow>
               (case zones m (KInt zone_id) of
                  None \<Rightarrow>
                    (Inl (KeyError (''Zone '' @ str_int zone_id @ '' not found in module ''
                                    @ module_udid)), s1)
                | Some zone \<Rightarrow> (Inr zone, s1))))"

definition get_tile :: "env \<Rightarrow> string \<Rightarrow> int \<Rightarrow> client \<Rightarrow> json outcome" where
  "get_tile E module_udid tile_id s =
     (case get_module_tiles E module_udid s of
        (Inl e, s1) \<Rightarrow> (Inl e, s1)
      | (Inr _, s1) \<Rightarrow>
          (case modules s1 module_udid of
             None \<Rightarrow> (Inl (KeyError module_udid), s1)
           | Some m \<Rightarrow>
               (case tiles m (KInt tile_id) of
                  None \<Rightarrow>
                    (Inl (KeyError (''Tile '' @ str_int tile_id @ '' not found in module ''
                                    @ module_udid)), s1)
                | Some tile \<Rightarrow> (Inr tile, s1))))"

section \<open>Commands and the remaining methods\<close>

text \<open>The body that \<^verbatim>\<open>set_const_temp\<close> posts; the dict literal evaluates
  \<^verbatim>\<open>zone_data["mode"]["id"]\<close> before \<^verbatim>\<open>int(target_temp * 10)\<close>.\<close>

definition const_temp_data :: "json \<Rightarrow> int \<Rightarrow> pyfloat \<Rightarrow> error + json" where
  "const_temp_data zone_data zone_id target_temp =
     (case py_getitem zone_data ''mode'' of
        Inl e \<Rightarrow> Inl e
      | Inr md \<Rightarrow>
          (case py_getitem md ''id'' of
             Inl e \<Rightarrow> Inl e
           | Inr mode_id \<Rightarrow>
               (case py_int (float_mul_10 target_temp) of
                  Inl e \<Rightarrow> Inl e
                | Inr t \<Rightarrow>
                    Inr (JObj [(''mode'',
                           JObj [(''id'', mode_id), (''parentId'', JInt zone_id),
                                 (''mode'', JStr ''constantTemp''), (''constTempTime'', JInt 60),
                                 (''setTemperature'', JInt t), (''scheduleIndex'', JInt 0)])]))))"

definition set_const_temp_body ::
  "env \<Rightarrow> string \<Rightarrow> int \<Rightarrow> pyfloat \<Rightarrow> client \<Rightarrow> json outcome" where
  "set_const_temp_body E module_udid zone_id target_temp s =
     (case get_module_zones E module_udid s of
        (Inl e, s1) \<Rightarrow> (Inl e, s1)
      | (Inr _, s1) \<Rightarrow>
          (case modules s1 module_udid of
             None \<Rightarrow> (Inl (KeyError module_udid), s1)
           | Some m \<Rightarrow>
               (case zones m (KInt zone_id) of
                  None \<Rightarrow>
                    (Inl (KeyError (''Zone '' @ str_int zone_id
                                    @ '' not found in module '' @ module_udid)), s1)
                | Some zone_data \<Rightarrow>
                    (case const_temp_data zone_data zone_id target_temp of
                       Inl e \<Rightarrow> (Inl e, s1)
                     | Inr dat \<Rightarrow>
                         post E (''users/'' @ fmt_opt (user_id s1) @ ''/modules/''
                                 @ module_udid @ ''/zones'') dat s1))))"

definition set_const_temp :: "env \<Rightarrow> string \<Rightarrow> int \<Rightarrow> pyfloat \<Rightarrow> client \<Rightarrow> json outcome" where
  "set_const_temp E module_udid zone_id target_temp =
     handle_api_errors ''set_const_temp'' (set_const_temp_body E module_udid zone_id target_temp)"

definition set_zone :: "env \<Rightarrow> string \<Rightarrow> int \<Rightarrow> bool \<Rightarrow> client \<Rightarrow> json outcome" where
  "set_zone E module_udid zone_id on =
     handle_api_errors ''set_zone''
       (\<lambda>s. let zone_state = (if on then ''zoneOn'' else ''zoneOff'');
                dat = JObj [(''zone'', JObj [(''id'', JInt zone_id),
                                             (''zoneState'', JStr zone_state)])]
            in post E (''users/'' @ fmt_opt (user_id s) @ ''/modules/'' @ module_udid
                       @ ''/zones'') dat s)"

text \<open>\<^verbatim>\<open>return self.authenticated and self.token is not None\<close>.\<close>

definition is_authenticated :: "client \<Rightarrow> json" where
  "is_authenticated s =
     (if \<not> truthy (authenticated s) then authenticated s else JBool (token s \<noteq> JNull))"

definition get_module_last_update :: "string \<Rightarrow> client \<Rightarrow> pyfloat option" where
  "get_module_last_update module_udid s =
     (case modules s module_udid of None \<Rightarrow> None | Some m \<Rightarrow> last_update m)"

text \<open>\<^verbatim>\<open>clear_module_cache(module_udid=None)\<close>: an empty string is as false as
  \<^verbatim>\<open>None\<close>.\<close>

definition clear_module_cache :: "string option \<Rightarrow> client \<Rightarrow> client" where
  "clear_module_cache module_udid s =
     (case module_udid of
        Some u \<Rightarrow>
          if u \<noteq> [] then
            (if u \<in> dom (modules s)
             then s\<lparr>modules := (modules s)
                      (u \<mapsto> \<lparr>last_update = None, zones = Map.empty, tiles = Map.empty\<rparr>)\<rparr>
             else s)
          else s\<lparr>modules := Map.empty\<rparr>
      | None \<Rightarrow> s\<lparr>modules := Map.empty\<rparr>)"

definition close :: "client \<Rightarrow> client" where
  "close s = (if \<not> session_closed s then s\<lparr>session_closed := True\<rparr> else s)"

section \<open>Notions used to state and prove the properties\<close>

text \<open>Two states of the object that differ at most in the requests sent.\<close>

definition session_only :: "client \<Rightarrow> client \<Rightarrow> bool" where
  "session_only s s' = (s' = s\<lparr>session := session s'\<rparr>)"

text \<open>The credentials of the object: user id, bearer token and the authenticated flag.\<close>

definition credentials :: "client \<Rightarrow> string option \<times> json \<times> json" where
  "credentials s = (user_id s, token s, authenticated s)"

text \<open>The key under which the loop stores a zone, \<^verbatim>\<open>zone["zone"]["id"]\<close> hashed, and the
  key under which it stores a tile, \<^verbatim>\<open>tile["id"]\<close> hashed.\<close>

definition zone_key :: "json \<Rightarrow> error + key" where
  "zone_key zone =
     (case py_getitem zone ''zone'' of
        Inl e \<Rightarrow> Inl e
      | Inr z \<Rightarrow> (case py_getitem z ''id'' of Inl e \<Rightarrow> Inl e | Inr i \<Rightarrow> py_key i))"

definition tile_key :: "json \<Rightarrow> error + key" where
  "tile_key tile = (case py_getitem tile ''id'' of Inl e \<Rightarrow> Inl e | Inr i \<Rightarrow> py_key i)"

text \<open>What a store loop over \<open>xs\<close> writes into a dict: how the loop ends, and the entries
  written before it ends, a later one over an earlier one.\<close>

fun writes :: "(json \<Rightarrow> error + key) \<Rightarrow> json list \<Rightarrow> (error + unit) \<times> (key \<rightharpoonup> json)" where
  "writes kf [] = (Inr (), Map.empty)"
| "writes kf (x # xs) =
     (case kf x of
        Inl e \<Rightarrow> (Inl e, Map.empty)
      | Inr k \<Rightarrow> (fst (writes kf xs), [k \<mapsto> x] ++ snd (writes kf xs)))"

text \<open>What a refresh writes into the zones and into the tiles of the module, as a function
  of the payload alone.\<close>

definition zones_part :: "json \<Rightarrow> (error + unit) \<times> (key \<rightharpoonup> json)" where
  "zones_part p =
     (case payload_zones p of
        Inl e \<Rightarrow> (Inl e, Map.empty)
      | Inr zones_in \<Rightarrow>
          if \<not> truthy zones_in then (Inr (), Map.empty)
          else (case filter_zones zones_in of
                  Inl e \<Rightarrow> (Inl e, Map.empty)
                | Inr fz \<Rightarrow> writes zone_key fz))"

definition tiles_part :: "json \<Rightarrow> (error + unit) \<times> (key \<rightharpoonup> json)" where
  "tiles_part p =
     (case payload_tiles p of
        Inl e \<Rightarrow> (Inl e, Map.empty)
      | Inr tiles_in \<Rightarrow>
          if \<not> truthy tiles_in then (Inr (), Map.empty)
          else (case filter_tiles tiles_in of
                  Inl e \<Rightarrow> (Inl e, Map.empty)
                | Inr ft \<Rightarrow> writes tile_key ft))"

text \<open>The record of a module before a refresh: the cached one, or the empty one that
  \<open>initialize_module_data\<close> creates.\<close>

definition module_or_new :: "client \<Rightarrow> string \<Rightarrow> module_rec" where
  "module_or_new s module_udid =
     (case modules s module_udid of
        None \<Rightarrow> \<lparr>last_update = None, zones = Map.empty, tiles = Map.empty\<rparr>
      | Some m \<Rightarrow> m)"

text \<open>What \<open>module_data\<close> makes of a module's record once the payload \<open>p\<close> is fetched:
  its result and the record afterwards.\<close>

definition refresh_module :: "json \<Rightarrow> pyfloat \<Rightarrow> module_rec \<Rightarrow> (error + module_rec) \<times> module_rec" where
  "refresh_module p now m =
     (let m1 = m\<lparr>zones := zones m ++ snd (zones_part p)\<rparr>
      in case fst (zones_part p) of
           Inl e \<Rightarrow> (Inl e, m1)
         | Inr _ \<Rightarrow>
             let m2 = m1\<lparr>tiles := tiles m1 ++ snd (tiles_part p)\<rparr>
             in (case fst (tiles_part p) of
                   Inl e \<Rightarrow> (Inl e, m2)
                 | Inr _ \<Rightarrow> (Inr (m2\<lparr>last_update := Some now\<rparr>), m2\<lparr>last_update := Some now\<rparr>)))"

text \<open>Inputs for the worked examples: a server that answers every request with status 200
  and the payload \<open>p\<close>, and a server that rejects every request with status 401.\<close>

definition answering :: "json \<Rightarrow> env" where
  "answering p =
     \<lparr>net = (\<lambda>rq. Response 200 ''ok'' (Decoded p)),
      py_str = (\<lambda>v. case v of JStr s \<Rightarrow> s | JInt i \<Rightarrow> str_int i | _ \<Rightarrow> ''?''),
      TECH_SUPPORTED_LANGUAGES = [''en'', ''pl'']\<rparr>"

definition rejecting :: env where
  "rejecting =
     \<lparr>net = (\<lambda>rq. Response 401 ''unauthorized'' (Decoded JNull)),
      py_str = (\<lambda>v. case v of JStr s \<Rightarrow> s | JInt i \<Rightarrow> str_int i | _ \<Rightarrow> ''?''),
      TECH_SUPPORTED_LANGUAGES = [''en'', ''pl'']\<rparr>"

text \<open>A zone record as the API sends it, a payload holding it among records that the
  filter drops, and a client built from stored credentials.\<close>

definition example_zone :: json where
  "example_zone =
     JObj [(''zone'', JObj [(''id'', JInt 1), (''visibility'', JBool True),
                            (''zoneState'', JStr ''zoneOn'')]),
           (''mode'', JObj [(''id'', JInt 77)])]"

definition example_records :: "json list" where
  "example_records =
     [example_zone,
      JNull,
      JObj [(''zone'', JNull)],
      JObj [(''zone'', JObj [(''id'', JInt 3)])],
      JObj [(''zone'', JObj [(''id'', JInt 4), (''visibility'', JBool True),
                             (''zoneState'', JStr ''zoneUnregistered'')])]]"

definition example_tiles :: "json list" where
  "example_tiles =
     [JObj [(''id'', JInt 10), (''visibility'', JBool True)],
      JObj [(''id'', JInt 11), (''visibility'', JBool False)]]"

definition example_payload :: json where
  "example_payload =
     JObj [(''zones'', JObj [(''elements'', JList example_records)]),
           (''tiles'', JList example_tiles)]"

definition example_client :: client where
  "example_client = init (Some ''u1'') (Some ''t1'') TECH_API_URL"

text \<open>The ids a payload contains: the keys of the records of its zones array and of its
  tiles array, for every record that has one.\<close>

definition keys_of :: "(json \<Rightarrow> error + key) \<Rightarrow> json list \<Rightarrow> key list" where
  "keys_of kf xs = concat (map (\<lambda>x. case kf x of Inl _ \<Rightarrow> [] | Inr k \<Rightarrow> [k]) xs)"

definition payload_zone_ids :: "json \<Rightarrow> key list" where
  "payload_zone_ids p =
     (case payload_zones p of
        Inl _ \<Rightarrow> []
      | Inr zones_in \<Rightarrow> (case py_iter zones_in of Inl _ \<Rightarrow> [] | Inr xs \<Rightarrow> keys_of zone_key xs))"

definition payload_tile_ids :: "json \<Rightarrow> key list" where
  "payload_tile_ids p =
     (case payload_tiles p of
        Inl _ \<Rightarrow> []
      | Inr tiles_in \<Rightarrow> (case py_iter tiles_in of Inl _ \<Rightarrow> [] | Inr xs \<Rightarrow> keys_of tile_key xs))"

text \<open>
  A refresh of module \<open>module_udid\<close> that takes the object from \<open>s\<close> to \<open>s'\<close> merges
  monotonically when every module cached in \<open>s\<close> is cached in \<open>s'\<close>, with every zone id and
  tile id it had, and an id that the fetched payload does not contain has the entry it
  had.
\<close>

definition merged_monotonically :: "env \<Rightarrow> string \<Rightarrow> client \<Rightarrow> client \<Rightarrow> bool" where
  "merged_monotonically E module_udid s s' =
     (\<forall>u m. modules s u = Some m \<longrightarrow>
        (\<exists>m'. modules s' u = Some m'
           \<and> dom (zones m) \<subseteq> dom (zones m') \<and> dom (tiles m) \<subseteq> dom (tiles m')
           \<and> (\<forall>p k. fst (get_module_data E module_udid (initialize_module_data module_udid s))
                        = Inr p
                    \<longrightarrow> k \<notin> set (payload_zone_ids p) \<longrightarrow> zones m' k = zones m k)
           \<and> (\<forall>p k. fst (get_module_data E module_udid (initialize_module_data module_udid s))
                        = Inr p
                    \<longrightarrow> k \<notin> set (payload_tile_ids p) \<longrightarrow> tiles m' k = tiles m k)))"

text \<open>The content of the cache: for every module cached, its zones and its tiles.\<close>

definition cache_content ::
  "client \<Rightarrow> string \<Rightarrow> ((key \<rightharpoonup> json) \<times> (key \<rightharpoonup> json)) option" where
  "cache_content s u = map_option (\<lambda>m. (zones m, tiles m)) (modules s u)"

text \<open>Consecutive calls of \<open>module_data\<close> for one module, one for each reading of the
  clock.\<close>

fun refresh_times :: "env \<Rightarrow> pyfloat list \<Rightarrow> string \<Rightarrow> client \<Rightarrow> client" where
  "refresh_times E [] module_udid s = s"
| "refresh_times E (now # nows) module_udid s =
     refresh_times E nows module_udid (snd (module_data E now module_udid s))"

text \<open>A cache as a first refresh leaves it, and the payload of a later refresh that
  holds another zone and no tile.\<close>

definition example_cached :: client where
  "example_cached =
     example_client\<lparr>modules :=
       [''m1'' \<mapsto> \<lparr>last_update = Some (Finite 5 0),
                    zones = [KInt 1 \<mapsto> example_zone],
                    tiles = [KInt 10 \<mapsto> JObj [(''id'', JInt 10), (''visibility'', JBool True)]]\<rparr>]\<rparr>"

definition later_payload :: json where
  "later_payload =
     JObj [(''zones'', JObj [(''elements'', JList
              [JObj [(''zone'', JObj [(''id'', JInt 2), (''visibility'', JBool True)])]])])]"

text \<open>The request that \<open>authenticate\<close> hands to the session.\<close>

definition authentication_request :: "client \<Rightarrow> string \<Rightarrow> string \<Rightarrow> request" where
  "authentication_request s username password =
     \<lparr>req_method = ''POST'', url = base_url s @ ''authentication'', req_headers = headers s,
      body = Some (JObj [(''username'', JStr username), (''password'', JStr password)]),
      timeout = 30\<rparr>"

text \<open>Ten times \<open>m * 2 ^ e\<close>, computed exactly and truncated towards zero.\<close>

definition tenfold_truncated :: "int \<Rightarrow> int \<Rightarrow> int" where
  "tenfold_truncated m e =
     (if 0 \<le> e then m * 10 * 2 ^ nat e
      else if 0 \<le> m then (m * 10) div 2 ^ nat (- e)
      else - ((- (m * 10)) div 2 ^ nat (- e)))"




text \<open>\<open>q * 2 ^ x\<close> truncated towards zero.\<close>

definition dyadic_truncated :: "int \<Rightarrow> int \<Rightarrow> int" where
  "dyadic_truncated q x =
     (if 0 \<le> x then q * 2 ^ nat x
      else if 0 \<le> q then q div 2 ^ nat (- x)
      else - ((- q) div 2 ^ nat (- x)))"

text \<open>
  Rounding an integer \<open>M\<close> to 53 significant bits, stated without the algorithm: \<open>k\<close>
  is the number of bits that \<open>M\<close> has beyond 53, and \<open>q\<close> is the integer nearest to
  \<open>M / 2 ^ k\<close>, the even one when two are equally near.
\<close>

definition mantissa_shift :: "int \<Rightarrow> nat \<Rightarrow> bool" where
  "mantissa_shift M k = (\<bar>M\<bar> < 2 ^ (53 + k) \<and> (k = 0 \<or> 2 ^ (52 + k) \<le> \<bar>M\<bar>))"

definition nearest_even :: "int \<Rightarrow> nat \<Rightarrow> int \<Rightarrow> bool" where
  "nearest_even M k q =
     (2 * \<bar>q * 2 ^ k - M\<bar> \<le> 2 ^ k \<and> (2 * \<bar>q * 2 ^ k - M\<bar> = 2 ^ k \<longrightarrow> even q))"



section \<open>Lemmas about the model\<close>

subsection \<open>The decorator and the transport\<close>

lemma session_only_refl: "session_only s s"
  by (simp add: session_only_def)

lemma session_only_trans: "session_only s s1 \<Longrightarrow> session_only s1 s2 \<Longrightarrow> session_only s s2"
  unfolding session_only_def
  by (metis client.surjective client.update_convs(2))

lemma session_onlyI: "s' = s\<lparr>session := l\<rparr> \<Longrightarrow> session_only s s'"
  by (simp add: session_only_def)

lemma handle_api_errors_unauth:
  "\<not> truthy (authenticated s) \<Longrightarrow> fname \<noteq> ''authenticate'' \<Longrightarrow>
   handle_api_errors fname func s = (Inl (TechError 401 ''Not authenticated''), s)"
  by (simp add: handle_api_errors_def)

lemma handle_api_errors_snd:
  "snd (handle_api_errors fname func s) = s \<or>
   snd (handle_api_errors fname func s) = snd (func s)"
  by (auto simp: handle_api_errors_def split: prod.splits sum.splits error.splits)

lemma handle_api_errors_preserves:
  assumes "P s" and "P (snd (func s))"
  shows "P (snd (handle_api_errors fname func s))"
  using handle_api_errors_snd [of fname func s] assms by auto

lemma handle_api_errors_Inr:
  "handle_api_errors fname func s = (Inr v, s') \<Longrightarrow> fname \<noteq> ''authenticate'' \<Longrightarrow>
   truthy (authenticated s) \<and> func s = (Inr v, s')"
  by (auto simp: handle_api_errors_def split: prod.splits sum.splits error.splits if_splits)

lemma handle_api_errors_auth_Inr:
  "truthy (authenticated s) \<Longrightarrow> func s = (Inr v, s') \<Longrightarrow>
   handle_api_errors fname func s = (Inr v, s')"
  by (auto simp: handle_api_errors_def split: prod.splits sum.splits error.splits if_splits)

lemma make_request_session_only:
  "session_only s (snd (make_request E meth path dat tmo s))"
  by (auto simp: make_request_def session_only_def Let_def
           split: http_outcome.splits json_outcome.splits)

lemma get_session_only: "session_only s (snd (get E path s))"
  unfolding get_def
  by (rule handle_api_errors_preserves) (simp_all add: session_only_refl make_request_session_only)

lemma post_session_only: "session_only s (snd (post E path dat s))"
  unfolding post_def
  by (rule handle_api_errors_preserves) (simp_all add: session_only_refl make_request_session_only)

lemma get_module_data_session_only: "session_only s (snd (get_module_data E module_udid s))"
  unfolding get_module_data_def
  by (rule handle_api_errors_preserves) (simp_all add: session_only_refl get_session_only)

lemma list_modules_session_only: "session_only s (snd (list_modules E s))"
  unfolding list_modules_def
  by (rule handle_api_errors_preserves) (simp_all add: session_only_refl get_session_only)

lemma get_translations_session_only: "session_only s (snd (get_translations E language s))"
  unfolding get_translations_def
  by (rule handle_api_errors_preserves) (simp_all add: session_only_refl get_session_only Let_def)

lemma set_zone_session_only: "session_only s (snd (set_zone E module_udid zone_id on s))"
  unfolding set_zone_def
  by (rule handle_api_errors_preserves) (simp_all add: session_only_refl post_session_only Let_def)

subsection \<open>The store loops\<close>

lemma store_zone_eq:
  "modules s module_udid = Some m \<Longrightarrow>
   store_zone module_udid zone s =
     (case zone_key zone of
        Inl e \<Rightarrow> (Inl e, s)
      | Inr k \<Rightarrow> (Inr (), s\<lparr>modules := (modules s)(module_udid \<mapsto> m\<lparr>zones := (zones m)(k \<mapsto> zone)\<rparr>)\<rparr>))"
  by (simp add: store_zone_def set_zone_entry_def zone_key_def split: sum.splits)

lemma store_tile_eq:
  "modules s module_udid = Some m \<Longrightarrow>
   store_tile module_udid tile s =
     (case tile_key tile of
        Inl e \<Rightarrow> (Inl e, s)
      | Inr k \<Rightarrow> (Inr (), s\<lparr>modules := (modules s)(module_udid \<mapsto> m\<lparr>tiles := (tiles m)(k \<mapsto> tile)\<rparr>)\<rparr>))"
  by (simp add: store_tile_def set_tile_entry_def tile_key_def split: sum.splits)

lemma upd_then_add: "(z(k \<mapsto> x)) ++ w = z ++ ([k \<mapsto> x] ++ w)"
  by (rule ext) (simp add: map_add_def split: option.splits)

lemma modules_upd_same:
  "modules s module_udid = Some m \<Longrightarrow> s\<lparr>modules := (modules s)(module_udid \<mapsto> m)\<rparr> = s"
  by (simp add: map_upd_triv)

lemma for_each_store_zone:
  "modules s module_udid = Some m \<Longrightarrow>
   for_each (store_zone module_udid) xs s =
     (fst (writes zone_key xs),
      s\<lparr>modules := (modules s)(module_udid \<mapsto> m\<lparr>zones := zones m ++ snd (writes zone_key xs)\<rparr>)\<rparr>)"
proof (induction xs arbitrary: s m)
  case Nil
  then show ?case by (simp add: map_upd_triv)
next
  case (Cons x xs)
  show ?case
  proof (cases "zone_key x")
    case (Inl e)
    have "store_zone module_udid x s = (Inl e, s)"
      using Cons.prems Inl by (simp add: store_zone_eq)
    then show ?thesis using Cons.prems Inl by (simp add: map_upd_triv)
  next
    case (Inr k)
    let ?m1 = "m\<lparr>zones := (zones m)(k \<mapsto> x)\<rparr>"
    let ?s1 = "s\<lparr>modules := (modules s)(module_udid \<mapsto> ?m1)\<rparr>"
    let ?w = "snd (writes zone_key xs)"
    have m1: "modules ?s1 module_udid = Some ?m1" by simp
    have step: "store_zone module_udid x s = (Inr (), ?s1)"
      using Cons.prems Inr by (simp add: store_zone_eq)
    have "for_each (store_zone module_udid) (x # xs) s = for_each (store_zone module_udid) xs ?s1"
      by (simp add: step)
    also have "\<dots> = (fst (writes zone_key xs),
        ?s1\<lparr>modules := (modules ?s1)(module_udid \<mapsto> ?m1\<lparr>zones := zones ?m1 ++ ?w\<rparr>)\<rparr>)"
      by (rule Cons.IH [OF m1])
    also have "?s1\<lparr>modules := (modules ?s1)(module_udid \<mapsto> ?m1\<lparr>zones := zones ?m1 ++ ?w\<rparr>)\<rparr>
        = s\<lparr>modules := (modules s)(module_udid \<mapsto> m\<lparr>zones := (zones m)(k \<mapsto> x) ++ ?w\<rparr>)\<rparr>"
      by simp
    also have "(zones m)(k \<mapsto> x) ++ ?w = zones m ++ ([k \<mapsto> x] ++ ?w)"
      by (rule upd_then_add)
    finally show ?thesis using Inr by simp
  qed
qed

lemma for_each_store_tile:
  "modules s module_udid = Some m \<Longrightarrow>
   for_each (store_tile module_udid) xs s =
     (fst (writes tile_key xs),
      s\<lparr>modules := (modules s)(module_udid \<mapsto> m\<lparr>tiles := tiles m ++ snd (writes tile_key xs)\<rparr>)\<rparr>)"
proof (induction xs arbitrary: s m)
  case Nil
  then show ?case by (simp add: map_upd_triv)
next
  case (Cons x xs)
  show ?case
  proof (cases "tile_key x")
    case (Inl e)
    have "store_tile module_udid x s = (Inl e, s)"
      using Cons.prems Inl by (simp add: store_tile_eq)
    then show ?thesis using Cons.prems Inl by (simp add: map_upd_triv)
  next
    case (Inr k)
    let ?m1 = "m\<lparr>tiles := (tiles m)(k \<mapsto> x)\<rparr>"
    let ?s1 = "s\<lparr>modules := (modules s)(module_udid \<mapsto> ?m1)\<rparr>"
    let ?w = "snd (writes tile_key xs)"
    have m1: "modules ?s1 module_udid = Some ?m1" by simp
    have step: "store_tile module_udid x s = (Inr (), ?s1)"
      using Cons.prems Inr by (simp add: store_tile_eq)
    have "for_each (store_tile module_udid) (x # xs) s = for_each (store_tile module_udid) xs ?s1"
      by (simp add: step)
    also have "\<dots> = (fst (writes tile_key xs),
        ?s1\<lparr>modules := (modules ?s1)(module_udid \<mapsto> ?m1\<lparr>tiles := tiles ?m1 ++ ?w\<rparr>)\<rparr>)"
      by (rule Cons.IH [OF m1])
    also have "?s1\<lparr>modules := (modules ?s1)(module_udid \<mapsto> ?m1\<lparr>tiles := tiles ?m1 ++ ?w\<rparr>)\<rparr>
        = s\<lparr>modules := (modules s)(module_udid \<mapsto> m\<lparr>tiles := (tiles m)(k \<mapsto> x) ++ ?w\<rparr>)\<rparr>"
      by simp
    also have "(tiles m)(k \<mapsto> x) ++ ?w = tiles m ++ ([k \<mapsto> x] ++ ?w)"
      by (rule upd_then_add)
    finally show ?thesis using Inr by simp
  qed
qed

subsection \<open>The three refreshes after the fetch\<close>

lemma initialize_module_data_eq:
  "initialize_module_data module_udid s =
     s\<lparr>modules := (modules s)(module_udid \<mapsto> module_or_new s module_udid)\<rparr>"
  by (cases "modules s module_udid")
     (simp_all add: initialize_module_data_def module_or_new_def map_upd_triv dom_def)

lemma session_only_fields:
  assumes "session_only s s'"
  shows "modules s' = modules s" "authenticated s' = authenticated s"
    "user_id s' = user_id s" "token s' = token s" "headers s' = headers s"
    "base_url s' = base_url s" "session_closed s' = session_closed s"
    "client_last_update s' = client_last_update s"
proof -
  from assms have e: "s' = s\<lparr>session := session s'\<rparr>" by (simp add: session_only_def)
  show "modules s' = modules s" by (subst e) simp
  show "authenticated s' = authenticated s" by (subst e) simp
  show "user_id s' = user_id s" by (subst e) simp
  show "token s' = token s" by (subst e) simp
  show "headers s' = headers s" by (subst e) simp
  show "base_url s' = base_url s" by (subst e) simp
  show "session_closed s' = session_closed s" by (subst e) simp
  show "client_last_update s' = client_last_update s" by (subst e) simp
qed

lemma update_zones_eq:
  assumes "modules s module_udid = Some m" and "truthy zones_in"
    and "payload_zones p = Inr zones_in"
  shows "update_zones module_udid zones_in s =
     (fst (zones_part p),
      s\<lparr>modules := (modules s)(module_udid \<mapsto> m\<lparr>zones := zones m ++ snd (zones_part p)\<rparr>)\<rparr>)"
proof (cases "filter_zones zones_in")
  case (Inl e)
  with assms show ?thesis
    by (simp add: update_zones_def zones_part_def map_upd_triv)
next
  case (Inr fz)
  with assms show ?thesis
    by (simp add: update_zones_def zones_part_def for_each_store_zone)
qed

lemma update_tiles_eq:
  assumes "modules s module_udid = Some m" and "truthy tiles_in"
    and "payload_tiles p = Inr tiles_in"
  shows "update_tiles module_udid tiles_in s =
     (fst (tiles_part p),
      s\<lparr>modules := (modules s)(module_udid \<mapsto> m\<lparr>tiles := tiles m ++ snd (tiles_part p)\<rparr>)\<rparr>)"
proof (cases "filter_tiles tiles_in")
  case (Inl e)
  with assms show ?thesis
    by (simp add: update_tiles_def tiles_part_def map_upd_triv)
next
  case (Inr ft)
  with assms show ?thesis
    by (simp add: update_tiles_def tiles_part_def for_each_store_tile)
qed

lemma handle_api_errors_auth_snd:
  "truthy (authenticated s) \<Longrightarrow> snd (handle_api_errors fname func s) = snd (func s)"
  by (auto simp: handle_api_errors_def split: prod.splits sum.splits error.splits)

lemma get_module_data_Inr_auth:
  "get_module_data E module_udid s = (Inr p, s1) \<Longrightarrow> truthy (authenticated s)"
  unfolding get_module_data_def
  by (drule handle_api_errors_Inr) simp_all

lemma initialize_fields:
  "authenticated (initialize_module_data module_udid s) = authenticated s"
  "modules (initialize_module_data module_udid s) =
     (modules s)(module_udid \<mapsto> module_or_new s module_udid)"
  by (simp_all add: initialize_module_data_eq)

lemma fetched_facts:
  assumes "get_module_data E module_udid (initialize_module_data module_udid s) = (r, s1)"
  shows "modules s1 = (modules s)(module_udid \<mapsto> module_or_new s module_udid)"
    and "modules s1 module_udid = Some (module_or_new s module_udid)"
    and "authenticated s1 = authenticated s"
proof -
  have so: "session_only (initialize_module_data module_udid s) s1"
    using get_module_data_session_only [of "initialize_module_data module_udid s" E module_udid] assms
    by simp
  show "modules s1 = (modules s)(module_udid \<mapsto> module_or_new s module_udid)"
    using session_only_fields(1) [OF so] by (simp add: initialize_fields)
  then show "modules s1 module_udid = Some (module_or_new s module_udid)" by simp
  show "authenticated s1 = authenticated s"
    using session_only_fields(2) [OF so] by (simp add: initialize_fields)
qed

lemma zones_step:
  assumes "modules s1 module_udid = Some m" and "payload_zones p = Inr zones_in"
  shows "(if truthy zones_in then update_zones module_udid zones_in s1 else (Inr (), s1)) =
     (fst (zones_part p),
      s1\<lparr>modules := (modules s1)(module_udid \<mapsto> m\<lparr>zones := zones m ++ snd (zones_part p)\<rparr>)\<rparr>)"
proof (cases "truthy zones_in")
  case True
  then show ?thesis using update_zones_eq [OF assms(1) True assms(2)] by simp
next
  case False
  then show ?thesis using assms by (simp add: zones_part_def map_upd_triv)
qed

lemma tiles_step:
  assumes "modules s1 module_udid = Some m" and "payload_tiles p = Inr tiles_in"
  shows "(if truthy tiles_in then update_tiles module_udid tiles_in s1 else (Inr (), s1)) =
     (fst (tiles_part p),
      s1\<lparr>modules := (modules s1)(module_udid \<mapsto> m\<lparr>tiles := tiles m ++ snd (tiles_part p)\<rparr>)\<rparr>)"
proof (cases "truthy tiles_in")
  case True
  then show ?thesis using update_tiles_eq [OF assms(1) True assms(2)] by simp
next
  case False
  then show ?thesis using assms by (simp add: tiles_part_def map_upd_triv)
qed

lemma zones_part_payload_error:
  "payload_zones p = Inl e \<Longrightarrow> zones_part p = (Inl e, Map.empty)"
  by (simp add: zones_part_def)

lemma tiles_part_payload_error:
  "payload_tiles p = Inl e \<Longrightarrow> tiles_part p = (Inl e, Map.empty)"
  by (simp add: tiles_part_def)

lemma module_data_body_fetched:
  assumes f: "get_module_data E module_udid (initialize_module_data module_udid s) = (Inr p, s1)"
  shows "module_data_body E now module_udid s =
     (fst (refresh_module p now (module_or_new s module_udid)),
      s1\<lparr>modules := (modules s)
            (module_udid \<mapsto> snd (refresh_module p now (module_or_new s module_udid)))\<rparr>)"
proof -
  let ?m = "module_or_new s module_udid"
  note ff = fetched_facts [OF f]
  note m = ff(2)
  have upd: "\<And>x. (modules s)(module_udid \<mapsto> x) = (modules s1)(module_udid \<mapsto> x)"
    by (simp add: ff(1))
  show ?thesis
    unfolding upd
  proof (cases "payload_zones p")
    case (Inl e)
    then show "module_data_body E now module_udid s =
     (fst (refresh_module p now ?m),
      s1\<lparr>modules := (modules s1)(module_udid \<mapsto> snd (refresh_module p now ?m))\<rparr>)"
      using m f
      by (simp add: module_data_body_def refresh_module_def zones_part_payload_error map_upd_triv)
  next
    case zi: (Inr zones_in)
    let ?m1 = "?m\<lparr>zones := zones ?m ++ snd (zones_part p)\<rparr>"
    let ?s2 = "s1\<lparr>modules := (modules s1)(module_udid \<mapsto> ?m1)\<rparr>"
    note zs = zones_step [OF m zi]
    have m2: "modules ?s2 module_udid = Some ?m1" by simp
    have body: "module_data_body E now module_udid s =
      (case fst (zones_part p) of
         Inl e \<Rightarrow> (Inl e, ?s2)
       | Inr _ \<Rightarrow>
          (case payload_tiles p of
             Inl e \<Rightarrow> (Inl e, ?s2)
           | Inr tiles_in \<Rightarrow>
               (case (if truthy tiles_in
                      then update_tiles module_udid tiles_in ?s2
                      else (Inr (), ?s2)) of
                  (Inl e, s3) \<Rightarrow> (Inl e, s3)
                | (Inr _, s3) \<Rightarrow> stamp_module module_udid now s3)))"
      unfolding module_data_body_def f prod.case sum.case zi zs
      by (simp split: sum.splits)
    show "module_data_body E now module_udid s =
     (fst (refresh_module p now ?m),
      s1\<lparr>modules := (modules s1)(module_udid \<mapsto> snd (refresh_module p now ?m))\<rparr>)"
    proof (cases "fst (zones_part p)")
      case (Inl e)
      then show ?thesis unfolding body by (simp add: refresh_module_def)
    next
      case zr: (Inr u)
      show ?thesis
      proof (cases "payload_tiles p")
        case (Inl e)
        then show ?thesis
          unfolding body using zr
          by (simp add: refresh_module_def tiles_part_payload_error)
      next
        case ti: (Inr tiles_in)
        note ts = tiles_step [OF m2 ti]
        have body2: "module_data_body E now module_udid s =
          (case fst (tiles_part p) of
             Inl e \<Rightarrow> (Inl e, ?s2\<lparr>modules := (modules ?s2)(module_udid \<mapsto> ?m1\<lparr>tiles := tiles ?m1 ++ snd (tiles_part p)\<rparr>)\<rparr>)
           | Inr _ \<Rightarrow> stamp_module module_udid now
               (?s2\<lparr>modules := (modules ?s2)(module_udid \<mapsto> ?m1\<lparr>tiles := tiles ?m1 ++ snd (tiles_part p)\<rparr>)\<rparr>))"
          unfolding body zr sum.case ti ts
          by (simp split: sum.splits)
        show ?thesis
          unfolding body2 using zr
          by (cases "fst (tiles_part p)")
             (simp_all add: refresh_module_def stamp_module_def Let_def)
      qed
    qed
  qed
qed

lemma fetched_auth:
  assumes f: "get_module_data E module_udid (initialize_module_data module_udid s) = (Inr p, s1)"
  shows "truthy (authenticated s)"
  using get_module_data_Inr_auth [OF f] by (simp add: initialize_fields)


lemma module_data_Inr:
  assumes f: "get_module_data E module_udid (initialize_module_data module_udid s) = (Inr p, s1)"
    and ok: "fst (refresh_module p now (module_or_new s module_udid)) = Inr m'"
  shows "fst (module_data E now module_udid s) = Inr m'"
proof -
  have "module_data_body E now module_udid s =
      (Inr m', s1\<lparr>modules := (modules s)
            (module_udid \<mapsto> snd (refresh_module p now (module_or_new s module_udid)))\<rparr>)"
    using ok by (simp add: module_data_body_fetched [OF f])
  from handle_api_errors_auth_Inr
    [of s "module_data_body E now module_udid", OF fetched_auth [OF f] this]
  show ?thesis
    by (simp add: module_data_def)
qed

lemma get_module_zones_body_fetched:
  assumes f: "get_module_data E module_udid (initialize_module_data module_udid s) = (Inr p, s1)"
  shows "get_module_zones_body E module_udid s =
     ((case fst (zones_part p) of
         Inl e \<Rightarrow> Inl e
       | Inr _ \<Rightarrow> Inr (zones (module_or_new s module_udid) ++ snd (zones_part p))),
      s1\<lparr>modules := (modules s)
            (module_udid \<mapsto> (module_or_new s module_udid)
               \<lparr>zones := zones (module_or_new s module_udid) ++ snd (zones_part p)\<rparr>)\<rparr>)"
proof -
  let ?m = "module_or_new s module_udid"
  note ff = fetched_facts [OF f]
  note m = ff(2)
  have upd: "\<And>x. (modules s)(module_udid \<mapsto> x) = (modules s1)(module_udid \<mapsto> x)"
    by (simp add: ff(1))
  show ?thesis
    unfolding upd
  proof (cases "payload_zones p")
    case (Inl e)
    then show "get_module_zones_body E module_udid s =
     ((case fst (zones_part p) of
         Inl e \<Rightarrow> Inl e
       | Inr _ \<Rightarrow> Inr (zones ?m ++ snd (zones_part p))),
      s1\<lparr>modules := (modules s1)
            (module_udid \<mapsto> ?m\<lparr>zones := zones ?m ++ snd (zones_part p)\<rparr>)\<rparr>)"
      using m f
      by (simp add: get_module_zones_body_def zones_part_payload_error map_upd_triv)
  next
    case zi: (Inr zones_in)
    show "get_module_zones_body E module_udid s =
     ((case fst (zones_part p) of
         Inl e \<Rightarrow> Inl e
       | Inr _ \<Rightarrow> Inr (zones ?m ++ snd (zones_part p))),
      s1\<lparr>modules := (modules s1)
            (module_udid \<mapsto> ?m\<lparr>zones := zones ?m ++ snd (zones_part p)\<rparr>)\<rparr>)"
    proof (cases "truthy zones_in")
      case True
      note uz = update_zones_eq [OF m True zi]
      show ?thesis
        unfolding get_module_zones_body_def f prod.case sum.case zi
        using True by (simp add: uz cached_zones_def split: sum.splits)
    next
      case False
      then have "zones_part p = (Inr (), Map.empty)"
        using zi by (simp add: zones_part_def)
      then show ?thesis
        unfolding get_module_zones_body_def f prod.case sum.case zi
        using False m by (simp add: cached_zones_def map_upd_triv)
    qed
  qed
qed

lemma get_module_tiles_body_fetched:
  assumes f: "get_module_data E module_udid (initialize_module_data module_udid s) = (Inr p, s1)"
  shows "get_module_tiles_body E module_udid s =
     ((case fst (tiles_part p) of
         Inl e \<Rightarrow> Inl e
       | Inr _ \<Rightarrow> Inr (tiles (module_or_new s module_udid) ++ snd (tiles_part p))),
      s1\<lparr>modules := (modules s)
            (module_udid \<mapsto> (module_or_new s module_udid)
               \<lparr>tiles := tiles (module_or_new s module_udid) ++ snd (tiles_part p)\<rparr>)\<rparr>)"
proof -
  let ?m = "module_or_new s module_udid"
  note ff = fetched_facts [OF f]
  note m = ff(2)
  have upd: "\<And>x. (modules s)(module_udid \<mapsto> x) = (modules s1)(module_udid \<mapsto> x)"
    by (simp add: ff(1))
  show ?thesis
    unfolding upd
  proof (cases "payload_tiles p")
    case (Inl e)
    then show "get_module_tiles_body E module_udid s =
     ((case fst (tiles_part p) of
         Inl e \<Rightarrow> Inl e
       | Inr _ \<Rightarrow> Inr (tiles ?m ++ snd (tiles_part p))),
      s1\<lparr>modules := (modules s1)
            (module_udid \<mapsto> ?m\<lparr>tiles := tiles ?m ++ snd (tiles_part p)\<rparr>)\<rparr>)"
      using m f
      by (simp add: get_module_tiles_body_def tiles_part_payload_error map_upd_triv)
  next
    case ti: (Inr tiles_in)
    show "get_module_tiles_body E module_udid s =
     ((case fst (tiles_part p) of
         Inl e \<Rightarrow> Inl e
       | Inr _ \<Rightarrow> Inr (tiles ?m ++ snd (tiles_part p))),
      s1\<lparr>modules := (modules s1)
            (module_udid \<mapsto> ?m\<lparr>tiles := tiles ?m ++ snd (tiles_part p)\<rparr>)\<rparr>)"
    proof (cases "truthy tiles_in")
      case True
      note ut = update_tiles_eq [OF m True ti]
      show ?thesis
        unfolding get_module_tiles_body_def f prod.case sum.case ti
        using True by (simp add: ut cached_tiles_def split: sum.splits)
    next
      case False
      then have "tiles_part p = (Inr (), Map.empty)"
        using ti by (simp add: tiles_part_def)
      then show ?thesis
        unfolding get_module_tiles_body_def f prod.case sum.case ti
        using False m by (simp add: cached_tiles_def map_upd_triv)
    qed
  qed
qed

lemma body_failed:
  assumes f: "get_module_data E module_udid (initialize_module_data module_udid s) = (Inl e, s1)"
  shows "get_module_zones_body E module_udid s = (Inl e, s1)"
    and "get_module_tiles_body E module_udid s = (Inl e, s1)"
    and "module_data_body E now module_udid s = (Inl e, s1)"
  by (simp_all add: get_module_zones_body_def get_module_tiles_body_def module_data_body_def f)

text \<open>The state after each of the three refreshes, in every case.\<close>

lemma refresh_states:
  fixes E module_udid s
  defines "m \<equiv> module_or_new s module_udid"
  defines "fetched \<equiv> get_module_data E module_udid (initialize_module_data module_udid s)"
  shows "snd (get_module_zones E module_udid s) =
      (if \<not> truthy (authenticated s) then s
       else case fst fetched of
          Inl e \<Rightarrow> snd fetched
        | Inr p \<Rightarrow> (snd fetched)\<lparr>modules := (modules s)
            (module_udid \<mapsto> m\<lparr>zones := zones m ++ snd (zones_part p)\<rparr>)\<rparr>)"
    and "snd (get_module_tiles E module_udid s) =
      (if \<not> truthy (authenticated s) then s
       else case fst fetched of
          Inl e \<Rightarrow> snd fetched
        | Inr p \<Rightarrow> (snd fetched)\<lparr>modules := (modules s)
            (module_udid \<mapsto> m\<lparr>tiles := tiles m ++ snd (tiles_part p)\<rparr>)\<rparr>)"
    and "snd (module_data E now module_udid s) =
      (if \<not> truthy (authenticated s) then s
       else case fst fetched of
          Inl e \<Rightarrow> snd fetched
        | Inr p \<Rightarrow> (snd fetched)\<lparr>modules := (modules s)
            (module_udid \<mapsto> snd (refresh_module p now m))\<rparr>)"
proof -
  obtain r s1 where f: "get_module_data E module_udid (initialize_module_data module_udid s) = (r, s1)"
    by (cases "get_module_data E module_udid (initialize_module_data module_udid s)")
  show "snd (get_module_zones E module_udid s) =
      (if \<not> truthy (authenticated s) then s
       else case fst fetched of
          Inl e \<Rightarrow> snd fetched
        | Inr p \<Rightarrow> (snd fetched)\<lparr>modules := (modules s)
            (module_udid \<mapsto> m\<lparr>zones := zones m ++ snd (zones_part p)\<rparr>)\<rparr>)"
  proof (cases "truthy (authenticated s)")
    case False
    then show ?thesis by (simp add: get_module_zones_def handle_api_errors_unauth)
  next
    case True
    show ?thesis
    proof (cases r)
      case (Inl e)
      with f True show ?thesis
        by (simp add: get_module_zones_def handle_api_errors_auth_snd body_failed fetched_def)
    next
      case (Inr p)
      with f True show ?thesis
        by (simp add: get_module_zones_def handle_api_errors_auth_snd
            get_module_zones_body_fetched fetched_def m_def)
    qed
  qed
  show "snd (get_module_tiles E module_udid s) =
      (if \<not> truthy (authenticated s) then s
       else case fst fetched of
          Inl e \<Rightarrow> snd fetched
        | Inr p \<Rightarrow> (snd fetched)\<lparr>modules := (modules s)
            (module_udid \<mapsto> m\<lparr>tiles := tiles m ++ snd (tiles_part p)\<rparr>)\<rparr>)"
  proof (cases "truthy (authenticated s)")
    case False
    then show ?thesis by (simp add: get_module_tiles_def handle_api_errors_unauth)
  next
    case True
    show ?thesis
    proof (cases r)
      case (Inl e)
      with f True show ?thesis
        by (simp add: get_module_tiles_def handle_api_errors_auth_snd body_failed fetched_def)
    next
      case (Inr p)
      with f True show ?thesis
        by (simp add: get_module_tiles_def handle_api_errors_auth_snd
            get_module_tiles_body_fetched fetched_def m_def)
    qed
  qed
  show "snd (module_data E now module_udid s) =
      (if \<not> truthy (authenticated s) then s
       else case fst fetched of
          Inl e \<Rightarrow> snd fetched
        | Inr p \<Rightarrow> (snd fetched)\<lparr>modules := (modules s)
            (module_udid \<mapsto> snd (refresh_module p now m))\<rparr>)"
  proof (cases "truthy (authenticated s)")
    case False
    then show ?thesis by (simp add: module_data_def handle_api_errors_unauth)
  next
    case True
    show ?thesis
    proof (cases r)
      case (Inl e)
      with f True show ?thesis
        by (simp add: module_data_def handle_api_errors_auth_snd body_failed fetched_def)
    next
      case (Inr p)
      with f True show ?thesis
        by (simp add: module_data_def handle_api_errors_auth_snd
            module_data_body_fetched fetched_def m_def)
    qed
  qed
qed

subsection \<open>Credentials\<close>

lemma session_only_credentials: "session_only s s' \<Longrightarrow> credentials s' = credentials s"
  by (simp add: credentials_def session_only_fields)

lemma credentials_modules_update [simp]: "credentials (s\<lparr>modules := x\<rparr>) = credentials s"
  by (simp add: credentials_def)

lemma credentials_initialize [simp]:
  "credentials (initialize_module_data module_udid s) = credentials s"
  by (simp add: initialize_module_data_eq)

lemma credentials_fetched:
  "credentials (snd (get_module_data E module_udid (initialize_module_data module_udid s)))
     = credentials s"
  using session_only_credentials [OF get_module_data_session_only
      [of "initialize_module_data module_udid s" E module_udid]]
  by simp

lemma credentials_get_module_zones:
  "credentials (snd (get_module_zones E module_udid s)) = credentials s"
  by (simp add: refresh_states(1) credentials_fetched split: sum.splits)

lemma credentials_get_module_tiles:
  "credentials (snd (get_module_tiles E module_udid s)) = credentials s"
  by (simp add: refresh_states(2) credentials_fetched split: sum.splits)

lemma credentials_module_data:
  "credentials (snd (module_data E now module_udid s)) = credentials s"
  by (simp add: refresh_states(3) credentials_fetched split: sum.splits)

lemma get_zone_snd: "snd (get_zone E module_udid zone_id s) = snd (get_module_zones E module_udid s)"
  by (simp add: get_zone_def split: prod.splits sum.splits option.splits)

lemma get_tile_snd: "snd (get_tile E module_udid tile_id s) = snd (get_module_tiles E module_udid s)"
  by (simp add: get_tile_def split: prod.splits sum.splits option.splits)

lemma credentials_set_const_temp_body:
  "credentials (snd (set_const_temp_body E module_udid zone_id target_temp s)) = credentials s"
proof -
  obtain r s1 where g: "get_module_zones E module_udid s = (r, s1)"
    by (cases "get_module_zones E module_udid s")
  have c1: "credentials s1 = credentials s"
    using credentials_get_module_zones [of E module_udid s] g by simp
  have "credentials (snd (set_const_temp_body E module_udid zone_id target_temp s)) = credentials s1"
    using session_only_credentials [OF post_session_only [of s1 E]]
    by (simp add: set_const_temp_body_def g split: sum.splits option.splits)
  with c1 show ?thesis by simp
qed

lemma credentials_set_const_temp:
  "credentials (snd (set_const_temp E module_udid zone_id target_temp s)) = credentials s"
  unfolding set_const_temp_def
  by (rule handle_api_errors_preserves [where P = "\<lambda>s'. credentials s' = credentials s"])
     (simp_all add: credentials_set_const_temp_body)

subsection \<open>The example server and client\<close>

lemma answering_fetch:
  assumes "truthy (authenticated s)" and "\<not> session_closed s"
  shows "fst (get_module_data (answering p) module_udid s) = Inr p"
  using assms
  by (simp add: get_module_data_def get_def handle_api_errors_def make_request_def answering_def
      Let_def)

lemma example_client_fields:
  "truthy (authenticated example_client)" "\<not> session_closed example_client"
  "modules example_client = Map.empty" "session example_client = []"
  by (simp_all add: example_client_def init_def)

lemma example_zones_part:
  "zones_part example_payload = (Inr (), [KInt 1 \<mapsto> example_zone])"
  by (simp add: zones_part_def example_payload_def payload_zones_def filter_zones_def
      zone_condition_def zone_key_def example_zone_def example_records_def)

lemma example_tiles_part:
  "tiles_part example_payload =
     (Inr (), [KInt 10 \<mapsto> JObj [(''id'', JInt 10), (''visibility'', JBool True)]])"
  by (simp add: tiles_part_def example_payload_def payload_tiles_def filter_tiles_def
      tile_condition_def tile_key_def example_tiles_def)

subsection \<open>The last-update time\<close>

lemma last_update_module_or_new:
  "last_update (module_or_new s module_udid) = get_module_last_update module_udid s"
  by (simp add: module_or_new_def get_module_last_update_def split: option.splits)

lemma fetched_modules:
  "modules (snd (get_module_data E module_udid (initialize_module_data module_udid s)))
     = (modules s)(module_udid \<mapsto> module_or_new s module_udid)"
  using fetched_facts(1) [of E module_udid s] by (metis prod.collapse)

lemma last_update_after_get_module_zones:
  "get_module_last_update u (snd (get_module_zones E module_udid s)) = get_module_last_update u s"
  by (simp add: refresh_states(1) get_module_last_update_def fetched_modules
      last_update_module_or_new [unfolded get_module_last_update_def]
      split: sum.splits)

lemma last_update_after_get_module_tiles:
  "get_module_last_update u (snd (get_module_tiles E module_udid s)) = get_module_last_update u s"
  by (simp add: refresh_states(2) get_module_last_update_def fetched_modules
      last_update_module_or_new [unfolded get_module_last_update_def]
      split: sum.splits)

lemma module_data_Inr_stamp:
  assumes "fst (module_data E now module_udid s) = Inr m'"
  shows "get_module_last_update module_udid (snd (module_data E now module_udid s)) = Some now
    \<and> last_update m' = Some now"
proof -
  obtain s' where md: "module_data E now module_udid s = (Inr m', s')"
    using assms by (cases "module_data E now module_udid s") simp
  from handle_api_errors_Inr [OF md [unfolded module_data_def]]
  have a: "truthy (authenticated s)" and b: "module_data_body E now module_udid s = (Inr m', s')"
    by simp_all
  obtain r s1 where f: "get_module_data E module_udid (initialize_module_data module_udid s) = (r, s1)"
    by (cases "get_module_data E module_udid (initialize_module_data module_udid s)")
  show ?thesis
  proof (cases r)
    case (Inl e)
    with f b body_failed(3) [of E module_udid s e s1 now]
    show ?thesis by simp
  next
    case (Inr p)
    with f have f': "get_module_data E module_udid (initialize_module_data module_udid s) = (Inr p, s1)"
      by simp
    from b module_data_body_fetched [OF f', of now]
    have r: "fst (refresh_module p now (module_or_new s module_udid)) = Inr m'"
      and s': "s' = s1\<lparr>modules := (modules s)
            (module_udid \<mapsto> snd (refresh_module p now (module_or_new s module_udid)))\<rparr>"
      by simp_all
    from r have "snd (refresh_module p now (module_or_new s module_udid)) = m'
        \<and> last_update m' = Some now"
      by (auto simp: refresh_module_def Let_def split: sum.splits)
    then show ?thesis
      using md s' by (simp add: get_module_last_update_def)
  qed
qed

lemma example_fetch:
  "fst (get_module_data (answering example_payload) ''m1''
          (initialize_module_data ''m1'' example_client)) = Inr example_payload"
  by (rule answering_fetch) (simp_all add: initialize_module_data_eq example_client_fields)

lemma example_module_data:
  "fst (module_data (answering example_payload) now ''m1'' example_client) =
     Inr \<lparr>last_update = Some now, zones = [KInt 1 \<mapsto> example_zone],
          tiles = [KInt 10 \<mapsto> JObj [(''id'', JInt 10), (''visibility'', JBool True)]]\<rparr>"
proof -
  obtain s1 where f: "get_module_data (answering example_payload) ''m1''
          (initialize_module_data ''m1'' example_client) = (Inr example_payload, s1)"
    using example_fetch by (metis prod.collapse)
  show ?thesis
    by (rule module_data_Inr [OF f])
       (simp add: refresh_module_def example_zones_part example_tiles_part module_or_new_def
          example_client_fields)
qed

subsection \<open>What a refresh returns\<close>

lemma get_module_zones_Inr:
  assumes g: "get_module_zones E module_udid s = (Inr zm, s1)"
  shows "\<exists>m. modules s1 module_udid = Some m \<and> zones m = zm"
proof -
  from handle_api_errors_Inr [OF g [unfolded get_module_zones_def]]
  have b: "get_module_zones_body E module_udid s = (Inr zm, s1)" by simp
  obtain r s0 where f: "get_module_data E module_udid (initialize_module_data module_udid s) = (r, s0)"
    by (cases "get_module_data E module_udid (initialize_module_data module_udid s)")
  show ?thesis
  proof (cases r)
    case (Inl e)
    with f b body_failed(1) [of E module_udid s e s0] show ?thesis by simp
  next
    case (Inr p)
    with f have f': "get_module_data E module_udid (initialize_module_data module_udid s) = (Inr p, s0)"
      by simp
    from b get_module_zones_body_fetched [OF f'] show ?thesis
      by (auto split: sum.splits)
  qed
qed

lemma get_module_tiles_Inr:
  assumes g: "get_module_tiles E module_udid s = (Inr tm, s1)"
  shows "\<exists>m. modules s1 module_udid = Some m \<and> tiles m = tm"
proof -
  from handle_api_errors_Inr [OF g [unfolded get_module_tiles_def]]
  have b: "get_module_tiles_body E module_udid s = (Inr tm, s1)" by simp
  obtain r s0 where f: "get_module_data E module_udid (initialize_module_data module_udid s) = (r, s0)"
    by (cases "get_module_data E module_udid (initialize_module_data module_udid s)")
  show ?thesis
  proof (cases r)
    case (Inl e)
    with f b body_failed(2) [of E module_udid s e s0] show ?thesis by simp
  next
    case (Inr p)
    with f have f': "get_module_data E module_udid (initialize_module_data module_udid s) = (Inr p, s0)"
      by simp
    from b get_module_tiles_body_fetched [OF f'] show ?thesis
      by (auto split: sum.splits)
  qed
qed

lemma example_get_module_zones:
  "\<exists>s1. get_module_zones (answering example_payload) ''m1'' example_client =
     (Inr [KInt 1 \<mapsto> example_zone], s1)"
proof -
  obtain s1 where f: "get_module_data (answering example_payload) ''m1''
          (initialize_module_data ''m1'' example_client) = (Inr example_payload, s1)"
    using example_fetch by (metis prod.collapse)
  have "get_module_zones_body (answering example_payload) ''m1'' example_client =
     (Inr [KInt 1 \<mapsto> example_zone],
      s1\<lparr>modules := (modules example_client)
            (''m1'' \<mapsto> (module_or_new example_client ''m1'')
               \<lparr>zones := zones (module_or_new example_client ''m1'') ++ [KInt 1 \<mapsto> example_zone]\<rparr>)\<rparr>)"
    by (simp add: get_module_zones_body_fetched [OF f] example_zones_part module_or_new_def
        example_client_fields)
  from handle_api_errors_auth_Inr
    [of example_client "get_module_zones_body (answering example_payload) ''m1''",
     OF example_client_fields(1) this]
  show ?thesis by (simp add: get_module_zones_def)
qed

lemma example_get_module_tiles:
  "\<exists>s1. get_module_tiles (answering example_payload) ''m1'' example_client =
     (Inr [KInt 10 \<mapsto> JObj [(''id'', JInt 10), (''visibility'', JBool True)]], s1)"
proof -
  obtain s1 where f: "get_module_data (answering example_payload) ''m1''
          (initialize_module_data ''m1'' example_client) = (Inr example_payload, s1)"
    using example_fetch by (metis prod.collapse)
  have "get_module_tiles_body (answering example_payload) ''m1'' example_client =
     (Inr [KInt 10 \<mapsto> JObj [(''id'', JInt 10), (''visibility'', JBool True)]],
      s1\<lparr>modules := (modules example_client)
            (''m1'' \<mapsto> (module_or_new example_client ''m1'')
               \<lparr>tiles := tiles (module_or_new example_client ''m1'')
                   ++ [KInt 10 \<mapsto> JObj [(''id'', JInt 10), (''visibility'', JBool True)]]\<rparr>)\<rparr>)"
    by (simp add: get_module_tiles_body_fetched [OF f] example_tiles_part module_or_new_def
        example_client_fields)
  from handle_api_errors_auth_Inr
    [of example_client "get_module_tiles_body (answering example_payload) ''m1''",
     OF example_client_fields(1) this]
  show ?thesis by (simp add: get_module_tiles_def)
qed

lemma str_int_2: "str_int 2 = ''2''" "str_int 11 = ''11''"
  by (simp_all add: str_int_def str_nat.simps)

subsection \<open>Monotonic merge\<close>

lemma comprehension_subset:
  "comprehension cond xs = Inr ys \<Longrightarrow> set ys \<subseteq> set xs"
proof (induction xs arbitrary: ys)
  case Nil
  then show ?case by simp
next
  case (Cons x xs)
  then show ?case
    by (auto split: sum.splits if_splits)
qed

lemma writes_dom: "dom (snd (writes kf xs)) \<subseteq> set (keys_of kf xs)"
proof (induction xs)
  case Nil
  then show ?case by (simp add: keys_of_def)
next
  case (Cons x xs)
  then show ?case
    by (cases "kf x") (auto simp: keys_of_def)
qed

lemma keys_of_mono: "set ys \<subseteq> set xs \<Longrightarrow> set (keys_of kf ys) \<subseteq> set (keys_of kf xs)"
  by (auto simp: keys_of_def)

lemma zones_part_dom: "dom (snd (zones_part p)) \<subseteq> set (payload_zone_ids p)"
proof (cases "payload_zones p")
  case (Inl e)
  then show ?thesis by (simp add: zones_part_def)
next
  case zi: (Inr zones_in)
  show ?thesis
  proof (cases "py_iter zones_in")
    case (Inl e)
    then show ?thesis using zi by (simp add: zones_part_def filter_zones_def)
  next
    case (Inr xs)
    show ?thesis
    proof (cases "comprehension zone_condition xs")
      case (Inl e)
      then show ?thesis using zi Inr by (simp add: zones_part_def filter_zones_def)
    next
      case fz: (Inr ys)
      have "dom (snd (writes zone_key ys)) \<subseteq> set (keys_of zone_key xs)"
        using writes_dom [of zone_key ys] keys_of_mono [OF comprehension_subset [OF fz], of zone_key]
        by blast
      then show ?thesis
        using zi Inr fz by (simp add: zones_part_def filter_zones_def payload_zone_ids_def)
    qed
  qed
qed

lemma tiles_part_dom: "dom (snd (tiles_part p)) \<subseteq> set (payload_tile_ids p)"
proof (cases "payload_tiles p")
  case (Inl e)
  then show ?thesis by (simp add: tiles_part_def)
next
  case ti: (Inr tiles_in)
  show ?thesis
  proof (cases "py_iter tiles_in")
    case (Inl e)
    then show ?thesis using ti by (simp add: tiles_part_def filter_tiles_def)
  next
    case (Inr xs)
    show ?thesis
    proof (cases "comprehension tile_condition xs")
      case (Inl e)
      then show ?thesis using ti Inr by (simp add: tiles_part_def filter_tiles_def)
    next
      case ft: (Inr ys)
      have "dom (snd (writes tile_key ys)) \<subseteq> set (keys_of tile_key xs)"
        using writes_dom [of tile_key ys] keys_of_mono [OF comprehension_subset [OF ft], of tile_key]
        by blast
      then show ?thesis
        using ti Inr ft by (simp add: tiles_part_def filter_tiles_def payload_tile_ids_def)
    qed
  qed
qed

lemma refresh_module_zones:
  "zones (snd (refresh_module p now m)) = zones m ++ snd (zones_part p)"
  by (simp add: refresh_module_def Let_def split: sum.splits)

lemma refresh_module_tiles:
  "tiles (snd (refresh_module p now m)) =
     (case fst (zones_part p) of Inl _ \<Rightarrow> tiles m | Inr _ \<Rightarrow> tiles m ++ snd (tiles_part p))"
  by (simp add: refresh_module_def Let_def split: sum.splits)

lemma add_absent: "k \<notin> dom d \<Longrightarrow> (z ++ d) k = z k"
  by (simp add: map_add_def domIff split: option.splits)

lemma module_or_new_Some: "modules s u = Some m \<Longrightarrow> module_or_new s u = m"
  by (simp add: module_or_new_def)

text \<open>A sufficient condition for a monotonic merge: the module's record afterwards is the
  one before with entries added from the payload.\<close>

lemma merged_monotonicallyI:
  assumes ms: "modules s' = (modules s)(module_udid \<mapsto> m1)"
    and z: "\<exists>d. zones m1 = zones (module_or_new s module_udid) ++ d
            \<and> (\<forall>p. fst (get_module_data E module_udid (initialize_module_data module_udid s)) = Inr p
                 \<longrightarrow> dom d \<subseteq> set (payload_zone_ids p))"
    and t: "\<exists>d. tiles m1 = tiles (module_or_new s module_udid) ++ d
            \<and> (\<forall>p. fst (get_module_data E module_udid (initialize_module_data module_udid s)) = Inr p
                 \<longrightarrow> dom d \<subseteq> set (payload_tile_ids p))"
  shows "merged_monotonically E module_udid s s'"
  unfolding merged_monotonically_def
proof (intro allI impI)
  fix u m
  assume um: "modules s u = Some m"
  show "\<exists>m'. modules s' u = Some m'
           \<and> dom (zones m) \<subseteq> dom (zones m') \<and> dom (tiles m) \<subseteq> dom (tiles m')
           \<and> (\<forall>p k. fst (get_module_data E module_udid (initialize_module_data module_udid s))
                        = Inr p
                    \<longrightarrow> k \<notin> set (payload_zone_ids p) \<longrightarrow> zones m' k = zones m k)
           \<and> (\<forall>p k. fst (get_module_data E module_udid (initialize_module_data module_udid s))
                        = Inr p
                    \<longrightarrow> k \<notin> set (payload_tile_ids p) \<longrightarrow> tiles m' k = tiles m k)"
  proof (cases "u = module_udid")
    case False
    then show ?thesis using um ms by simp
  next
    case True
    with um have m0: "module_or_new s module_udid = m" by (simp add: module_or_new_Some)
    from z m0 obtain dz where dz: "zones m1 = zones m ++ dz"
      "\<forall>p. fst (get_module_data E module_udid (initialize_module_data module_udid s)) = Inr p
                 \<longrightarrow> dom dz \<subseteq> set (payload_zone_ids p)" by auto
    from t m0 obtain dt where dt: "tiles m1 = tiles m ++ dt"
      "\<forall>p. fst (get_module_data E module_udid (initialize_module_data module_udid s)) = Inr p
                 \<longrightarrow> dom dt \<subseteq> set (payload_tile_ids p)" by auto
    have "modules s' u = Some m1" using True ms by simp
    moreover have "dom (zones m) \<subseteq> dom (zones m1)" using dz(1) by auto
    moreover have "dom (tiles m) \<subseteq> dom (tiles m1)" using dt(1) by auto
    moreover have "\<forall>p k. fst (get_module_data E module_udid (initialize_module_data module_udid s))
                        = Inr p
                    \<longrightarrow> k \<notin> set (payload_zone_ids p) \<longrightarrow> zones m1 k = zones m k"
    proof (intro allI impI)
      fix p k
      assume f: "fst (get_module_data E module_udid (initialize_module_data module_udid s)) = Inr p"
        and k: "k \<notin> set (payload_zone_ids p)"
      from dz(2) f have "dom dz \<subseteq> set (payload_zone_ids p)" by blast
      with k have "k \<notin> dom dz" by blast
      then show "zones m1 k = zones m k" by (simp add: dz(1) add_absent)
    qed
    moreover have "\<forall>p k. fst (get_module_data E module_udid (initialize_module_data module_udid s))
                        = Inr p
                    \<longrightarrow> k \<notin> set (payload_tile_ids p) \<longrightarrow> tiles m1 k = tiles m k"
    proof (intro allI impI)
      fix p k
      assume f: "fst (get_module_data E module_udid (initialize_module_data module_udid s)) = Inr p"
        and k: "k \<notin> set (payload_tile_ids p)"
      from dt(2) f have "dom dt \<subseteq> set (payload_tile_ids p)" by blast
      with k have "k \<notin> dom dt" by blast
      then show "tiles m1 k = tiles m k" by (simp add: dt(1) add_absent)
    qed
    ultimately show ?thesis by blast
  qed
qed

lemma merged_monotonically_refl: "merged_monotonically E module_udid s s"
  unfolding merged_monotonically_def by auto

lemma empty_delta:
  "\<exists>d. z = z ++ d \<and> (\<forall>p. P p \<longrightarrow> dom d \<subseteq> set (ids p))"
  by (rule exI [of _ Map.empty]) simp

lemma monotonic_get_module_zones:
  "merged_monotonically E module_udid s (snd (get_module_zones E module_udid s))"
proof (cases "truthy (authenticated s)")
  case False
  then show ?thesis by (simp add: refresh_states(1) merged_monotonically_refl)
next
  case True
  let ?f = "get_module_data E module_udid (initialize_module_data module_udid s)"
  let ?m = "module_or_new s module_udid"
  show ?thesis
  proof (cases "fst ?f")
    case (Inl e)
    then have "snd (get_module_zones E module_udid s) = snd ?f"
      using True by (simp add: refresh_states(1))
    then have ms: "modules (snd (get_module_zones E module_udid s)) = (modules s)(module_udid \<mapsto> ?m)"
      by (simp add: fetched_modules)
    show ?thesis by (rule merged_monotonicallyI [OF ms]) (rule empty_delta)+
  next
    case (Inr p)
    then have "snd (get_module_zones E module_udid s) =
        (snd ?f)\<lparr>modules := (modules s)(module_udid \<mapsto> ?m\<lparr>zones := zones ?m ++ snd (zones_part p)\<rparr>)\<rparr>"
      using True by (simp add: refresh_states(1))
    then have ms: "modules (snd (get_module_zones E module_udid s)) =
        (modules s)(module_udid \<mapsto> ?m\<lparr>zones := zones ?m ++ snd (zones_part p)\<rparr>)"
      by simp
    show ?thesis
    proof (rule merged_monotonicallyI [OF ms])
      show "\<exists>d. zones (?m\<lparr>zones := zones ?m ++ snd (zones_part p)\<rparr>) = zones ?m ++ d
            \<and> (\<forall>p. fst ?f = Inr p \<longrightarrow> dom d \<subseteq> set (payload_zone_ids p))"
        using Inr zones_part_dom [of p] by (intro exI [of _ "snd (zones_part p)"]) simp
      show "\<exists>d. tiles (?m\<lparr>zones := zones ?m ++ snd (zones_part p)\<rparr>) = tiles ?m ++ d
            \<and> (\<forall>p. fst ?f = Inr p \<longrightarrow> dom d \<subseteq> set (payload_tile_ids p))"
        by (intro exI [of _ Map.empty]) simp
    qed
  qed
qed

lemma monotonic_get_module_tiles:
  "merged_monotonically E module_udid s (snd (get_module_tiles E module_udid s))"
proof (cases "truthy (authenticated s)")
  case False
  then show ?thesis by (simp add: refresh_states(2) merged_monotonically_refl)
next
  case True
  let ?f = "get_module_data E module_udid (initialize_module_data module_udid s)"
  let ?m = "module_or_new s module_udid"
  show ?thesis
  proof (cases "fst ?f")
    case (Inl e)
    then have "snd (get_module_tiles E module_udid s) = snd ?f"
      using True by (simp add: refresh_states(2))
    then have ms: "modules (snd (get_module_tiles E module_udid s)) = (modules s)(module_udid \<mapsto> ?m)"
      by (simp add: fetched_modules)
    show ?thesis by (rule merged_monotonicallyI [OF ms]) (rule empty_delta)+
  next
    case (Inr p)
    then have "snd (get_module_tiles E module_udid s) =
        (snd ?f)\<lparr>modules := (modules s)(module_udid \<mapsto> ?m\<lparr>tiles := tiles ?m ++ snd (tiles_part p)\<rparr>)\<rparr>"
      using True by (simp add: refresh_states(2))
    then have ms: "modules (snd (get_module_tiles E module_udid s)) =
        (modules s)(module_udid \<mapsto> ?m\<lparr>tiles := tiles ?m ++ snd (tiles_part p)\<rparr>)"
      by simp
    show ?thesis
    proof (rule merged_monotonicallyI [OF ms])
      show "\<exists>d. zones (?m\<lparr>tiles := tiles ?m ++ snd (tiles_part p)\<rparr>) = zones ?m ++ d
            \<and> (\<forall>p. fst ?f = Inr p \<longrightarrow> dom d \<subseteq> set (payload_zone_ids p))"
        by (intro exI [of _ Map.empty]) simp
      show "\<exists>d. tiles (?m\<lparr>tiles := tiles ?m ++ snd (tiles_part p)\<rparr>) = tiles ?m ++ d
            \<and> (\<forall>p. fst ?f = Inr p \<longrightarrow> dom d \<subseteq> set (payload_tile_ids p))"
        using Inr tiles_part_dom [of p] by (intro exI [of _ "snd (tiles_part p)"]) simp
    qed
  qed
qed

lemma monotonic_module_data:
  "merged_monotonically E module_udid s (snd (module_data E now module_udid s))"
proof (cases "truthy (authenticated s)")
  case False
  then show ?thesis by (simp add: refresh_states(3) merged_monotonically_refl)
next
  case True
  let ?f = "get_module_data E module_udid (initialize_module_data module_udid s)"
  let ?m = "module_or_new s module_udid"
  show ?thesis
  proof (cases "fst ?f")
    case (Inl e)
    then have "snd (module_data E now module_udid s) = snd ?f"
      using True by (simp add: refresh_states(3))
    then have ms: "modules (snd (module_data E now module_udid s)) = (modules s)(module_udid \<mapsto> ?m)"
      by (simp add: fetched_modules)
    show ?thesis by (rule merged_monotonicallyI [OF ms]) (rule empty_delta)+
  next
    case (Inr p)
    then have "snd (module_data E now module_udid s) =
        (snd ?f)\<lparr>modules := (modules s)(module_udid \<mapsto> snd (refresh_module p now ?m))\<rparr>"
      using True by (simp add: refresh_states(3))
    then have ms: "modules (snd (module_data E now module_udid s)) =
        (modules s)(module_udid \<mapsto> snd (refresh_module p now ?m))"
      by simp
    show ?thesis
    proof (rule merged_monotonicallyI [OF ms])
      show "\<exists>d. zones (snd (refresh_module p now ?m)) = zones ?m ++ d
            \<and> (\<forall>p. fst ?f = Inr p \<longrightarrow> dom d \<subseteq> set (payload_zone_ids p))"
        using Inr zones_part_dom [of p]
        by (intro exI [of _ "snd (zones_part p)"]) (simp add: refresh_module_zones)
      show "\<exists>d. tiles (snd (refresh_module p now ?m)) = tiles ?m ++ d
            \<and> (\<forall>p. fst ?f = Inr p \<longrightarrow> dom d \<subseteq> set (payload_tile_ids p))"
      proof (cases "fst (zones_part p)")
        case (Inl e)
        then show ?thesis
          by (intro exI [of _ Map.empty]) (simp add: refresh_module_tiles)
      next
        case (Inr u)
        then show ?thesis
          using \<open>fst ?f = Inr p\<close> tiles_part_dom [of p]
          by (intro exI [of _ "snd (tiles_part p)"]) (simp add: refresh_module_tiles)
      qed
    qed
  qed
qed

lemma example_cached_fields:
  "truthy (authenticated example_cached)" "\<not> session_closed example_cached"
  "modules example_cached ''m1'' =
     Some \<lparr>last_update = Some (Finite 5 0), zones = [KInt 1 \<mapsto> example_zone],
           tiles = [KInt 10 \<mapsto> JObj [(''id'', JInt 10), (''visibility'', JBool True)]]\<rparr>"
  by (simp_all add: example_cached_def example_client_def init_def)

lemma later_payload_ids:
  "payload_zone_ids later_payload = [KInt 2]" "payload_tile_ids later_payload = []"
  by (simp_all add: payload_zone_ids_def payload_tile_ids_def later_payload_def payload_zones_def
      payload_tiles_def keys_of_def zone_key_def)

lemma later_fetch:
  "fst (get_module_data (answering later_payload) ''m1''
          (initialize_module_data ''m1'' example_cached)) = Inr later_payload"
  by (rule answering_fetch) (simp_all add: initialize_module_data_eq example_cached_fields)

subsection \<open>A server with a constant answer\<close>

lemma constant_server_fetch:
  assumes "\<forall>rq. net E rq = Response 200 txt (Decoded p)" and "truthy (authenticated s)"
  shows "fst (get_module_data E module_udid s) = (if session_closed s then Inl RuntimeError else Inr p)"
  using assms
  by (simp add: get_module_data_def get_def handle_api_errors_def make_request_def Let_def)

lemma closed_fetch_state:
  assumes "session_closed s"
  shows "snd (get_module_data E module_udid s) = s"
  using assms
  by (simp add: get_module_data_def get_def handle_api_errors_def make_request_def Let_def)

lemma fetched_fields:
  "authenticated (snd (get_module_data E module_udid (initialize_module_data module_udid s)))
     = authenticated s"
  "session_closed (snd (get_module_data E module_udid (initialize_module_data module_udid s)))
     = session_closed s"
  using session_only_fields(2,7) [OF get_module_data_session_only
      [of "initialize_module_data module_udid s" E module_udid]]
  by (simp_all add: initialize_module_data_eq)

lemma module_data_keeps:
  "authenticated (snd (module_data E now module_udid s)) = authenticated s"
  "session_closed (snd (module_data E now module_udid s)) = session_closed s"
  by (simp_all add: refresh_states(3) fetched_fields split: sum.splits)

lemma map_add_twice: "(z ++ d) ++ d = z ++ (d::'a \<rightharpoonup> 'b)"
  by (rule ext) (simp add: map_add_def split: option.splits)

lemma refresh_module_twice:
  "zones (snd (refresh_module p n2 (snd (refresh_module p n1 m)))) = zones (snd (refresh_module p n1 m))"
  "tiles (snd (refresh_module p n2 (snd (refresh_module p n1 m)))) = tiles (snd (refresh_module p n1 m))"
  by (simp_all add: refresh_module_zones refresh_module_tiles map_add_twice split: sum.splits)

lemma module_or_new_upd: "module_or_new (s\<lparr>modules := (ms)(u \<mapsto> m)\<rparr>) u = m"
  by (simp add: module_or_new_def)

lemma initialize_twice:
  "initialize_module_data u (initialize_module_data u s) = initialize_module_data u s"
  by (simp add: initialize_module_data_def)

text \<open>The cache after one \<open>module_data\<close> against a server that always answers \<open>p\<close>.\<close>

lemma cache_after_module_data:
  assumes c: "\<forall>rq. net E rq = Response 200 txt (Decoded p)"
  shows "cache_content (snd (module_data E now module_udid s)) =
     (if \<not> truthy (authenticated s) then cache_content s
      else if session_closed s
        then (cache_content s)(module_udid \<mapsto>
               (zones (module_or_new s module_udid), tiles (module_or_new s module_udid)))
        else (cache_content s)(module_udid \<mapsto>
               (zones (snd (refresh_module p now (module_or_new s module_udid))),
                tiles (snd (refresh_module p now (module_or_new s module_udid))))))"
proof (cases "truthy (authenticated s)")
  case False
  then show ?thesis by (simp add: refresh_states(3))
next
  case True
  then have a: "truthy (authenticated (initialize_module_data module_udid s))"
    by (simp add: initialize_module_data_eq)
  have cl: "session_closed (initialize_module_data module_udid s) = session_closed s"
    by (simp add: initialize_module_data_eq)
  note f = constant_server_fetch [OF c a, of module_udid, unfolded cl]
  show ?thesis
  proof (cases "session_closed s")
    case closed: True
    then have "snd (module_data E now module_udid s) =
        snd (get_module_data E module_udid (initialize_module_data module_udid s))"
      using True f by (simp add: refresh_states(3))
    then have "modules (snd (module_data E now module_udid s)) =
        (modules s)(module_udid \<mapsto> module_or_new s module_udid)"
      by (simp add: fetched_modules)
    then show ?thesis using True closed
      by (auto simp: cache_content_def fun_eq_iff)
  next
    case opened: False
    then have "modules (snd (module_data E now module_udid s)) =
        (modules s)(module_udid \<mapsto> snd (refresh_module p now (module_or_new s module_udid)))"
      using True f by (simp add: refresh_states(3))
    then show ?thesis using True opened
      by (auto simp: cache_content_def fun_eq_iff)
  qed
qed

lemma cache_content_module_or_new:
  "cache_content s u = Some (z, t) \<Longrightarrow> zones (module_or_new s u) = z \<and> tiles (module_or_new s u) = t"
  by (auto simp: cache_content_def module_or_new_def)

lemma module_data_twice:
  assumes c: "\<forall>rq. net E rq = Response 200 txt (Decoded p)"
  shows "cache_content (snd (module_data E n2 module_udid (snd (module_data E n1 module_udid s))))
       = cache_content (snd (module_data E n1 module_udid s))"
proof -
  let ?s1 = "snd (module_data E n1 module_udid s)"
  note one = cache_after_module_data [OF c, of n1 module_udid s]
  note two = cache_after_module_data [OF c, of n2 module_udid ?s1, unfolded module_data_keeps]
  show ?thesis
  proof (cases "truthy (authenticated s)")
    case False
    then show ?thesis using one two by simp
  next
    case True
    show ?thesis
    proof (cases "session_closed s")
      case closed: True
      let ?m = "module_or_new s module_udid"
      from one True closed have c1: "cache_content ?s1 =
          (cache_content s)(module_udid \<mapsto> (zones ?m, tiles ?m))" by simp
      then have "cache_content ?s1 module_udid = Some (zones ?m, tiles ?m)" by simp
      from cache_content_module_or_new [OF this]
      have "zones (module_or_new ?s1 module_udid) = zones ?m"
        "tiles (module_or_new ?s1 module_udid) = tiles ?m" by simp_all
      then show ?thesis using two True closed c1 by simp
    next
      case opened: False
      let ?m1 = "snd (refresh_module p n1 (module_or_new s module_udid))"
      from one True opened have c1: "cache_content ?s1 =
          (cache_content s)(module_udid \<mapsto> (zones ?m1, tiles ?m1))" by simp
      then have k: "cache_content ?s1 module_udid = Some (zones ?m1, tiles ?m1)" by simp
      have "modules ?s1 module_udid = Some ?m1"
      proof -
        have a: "truthy (authenticated (initialize_module_data module_udid s))"
          using True by (simp add: initialize_module_data_eq)
        have cl: "session_closed (initialize_module_data module_udid s) = session_closed s"
          by (simp add: initialize_module_data_eq)
        note f = constant_server_fetch [OF c a, of module_udid, unfolded cl]
        show ?thesis using True opened f by (simp add: refresh_states(3))
      qed
      then have mo: "module_or_new ?s1 module_udid = ?m1" by (simp add: module_or_new_def)
      show ?thesis
        using two True opened c1 by (simp add: mo refresh_module_twice)
    qed
  qed
qed

lemma answering_constant: "\<forall>rq. net (answering p) rq = Response 200 ''ok'' (Decoded p)"
  by (simp add: answering_def)

subsection \<open>The login request\<close>

lemma lstrip_authentication: "lstrip_slash ''authentication'' = ''authentication''"
  by (simp add: lstrip_slash_def)

lemma make_request_authentication:
  assumes "\<not> session_closed s"
  shows "make_request E ''POST'' ''authentication''
           (Some (JObj [(''username'', JStr username), (''password'', JStr password)]))
           DEFAULT_TIMEOUT s =
         (case net E (authentication_request s username password) of
            RaisesClientError m \<Rightarrow> Inl (TechError 500 (''HTTP client error: '' @ m))
          | RaisesTimeout \<Rightarrow> Inl TimeoutError
          | Response status response_text js \<Rightarrow>
              if status \<noteq> 200 then Inl (TechError status response_text)
              else (case js of
                      Decoded v \<Rightarrow> Inr v
                    | JSONDecodeError m \<Rightarrow> Inl (TechError 500 (''Invalid JSON response: '' @ m))
                    | JsonClientError m \<Rightarrow> Inl (TechError 500 (''HTTP client error: '' @ m))),
          s\<lparr>session := session s @ [authentication_request s username password]\<rparr>)"
  using assms
  by (simp add: make_request_def authentication_request_def lstrip_authentication Let_def
      DEFAULT_TIMEOUT_def split: http_outcome.splits json_outcome.splits)

subsection \<open>Scaling the target temperature\<close>

lemma bitlen_bound: "n < 2 ^ k \<Longrightarrow> bitlen n \<le> k"
proof (induction k arbitrary: n)
  case 0
  then show ?case by (simp add: bitlen.simps)
next
  case (Suc k)
  show ?case
  proof (cases "n = 0")
    case True
    then show ?thesis by (simp add: bitlen.simps)
  next
    case False
    from Suc.prems have "n div 2 < 2 ^ k" by simp
    from Suc.IH [OF this] False show ?thesis
      by (subst bitlen.simps) simp
  qed
qed

lemma round_shift_0: "round_shift m 0 = m"
  by (simp add: round_shift_def)

lemma float_mul_10_exact:
  assumes "\<bar>m * 10\<bar> < 2 ^ 53" and "- 1074 \<le> e" and "e \<le> 971"
  shows "float_mul_10 (Finite m e) = Finite (m * 10) e"
proof -
  have "nat \<bar>m * 10\<bar> < 2 ^ 53"
    using assms(1) by (simp add: nat_less_iff)
  from bitlen_bound [OF this] have b: "int (bitlen (nat \<bar>m * 10\<bar>)) \<le> 53" by simp
  then have k: "nat (max (max (int (bitlen (nat \<bar>m * 10\<bar>)) - 53) (- 1074 - e)) 0) = 0"
    using assms(2) by simp
  show ?thesis
    using b assms(3) by (simp add: round_binary64_def k round_shift_0 Let_def)
qed

lemma py_int_tenfold: "py_int (Finite (m * 10) e) = Inr (tenfold_truncated m e)"
  by (simp add: tenfold_truncated_def zero_le_mult_iff)

lemma get_module_data_Inr_open:
  assumes "get_module_data E module_udid s = (Inr p, s')"
  shows "\<not> session_closed s"
proof
  assume c: "session_closed s"
  from handle_api_errors_Inr [OF assms [unfolded get_module_data_def]]
  have "get E (''users/'' @ fmt_opt (user_id s) @ ''/modules/'' @ module_udid) s = (Inr p, s')"
    by simp
  from handle_api_errors_Inr [OF this [unfolded get_def]]
  have "make_request E ''GET'' (''users/'' @ fmt_opt (user_id s) @ ''/modules/'' @ module_udid)
          None DEFAULT_TIMEOUT s = (Inr p, s')" by simp
  with c show False by (simp add: make_request_def Let_def)
qed

lemma get_module_zones_after:
  assumes g: "get_module_zones E module_udid s = (Inr zm, s1)"
  shows "truthy (authenticated s1)" "\<not> session_closed s1" "user_id s1 = user_id s"
    "base_url s1 = base_url s" "headers s1 = headers s"
    "\<exists>m. modules s1 module_udid = Some m \<and> zones m = zm"
proof -
  let ?f = "get_module_data E module_udid (initialize_module_data module_udid s)"
  from handle_api_errors_Inr [OF g [unfolded get_module_zones_def]]
  have a: "truthy (authenticated s)"
    and b: "get_module_zones_body E module_udid s = (Inr zm, s1)" by simp_all
  obtain r s0 where f: "?f = (r, s0)" by (cases ?f)
  have "\<exists>p. r = Inr p"
  proof (cases r)
    case (Inl e)
    with f b body_failed(1) [of E module_udid s e s0] show ?thesis by simp
  next
    case (Inr p)
    then show ?thesis by blast
  qed
  then obtain p where f': "?f = (Inr p, s0)" using f by blast
  from get_module_data_Inr_open [OF f']
  have o: "\<not> session_closed s" by (simp add: initialize_module_data_eq)
  have so: "session_only (initialize_module_data module_udid s) s0"
    using get_module_data_session_only [of "initialize_module_data module_udid s" E module_udid] f'
    by simp
  note fld = session_only_fields [OF so]
  from b get_module_zones_body_fetched [OF f']
  have s1: "s1 = s0\<lparr>modules := (modules s)
            (module_udid \<mapsto> (module_or_new s module_udid)
               \<lparr>zones := zones (module_or_new s module_udid) ++ snd (zones_part p)\<rparr>)\<rparr>"
    by simp
  show "truthy (authenticated s1)"
    using a fld(2) by (simp add: s1 initialize_module_data_eq)
  show "\<not> session_closed s1"
    using o fld(7) by (simp add: s1 initialize_module_data_eq)
  show "user_id s1 = user_id s"
    using fld(3) by (simp add: s1 initialize_module_data_eq)
  show "base_url s1 = base_url s"
    using fld(6) by (simp add: s1 initialize_module_data_eq)
  show "headers s1 = headers s"
    using fld(5) by (simp add: s1 initialize_module_data_eq)
  show "\<exists>m. modules s1 module_udid = Some m \<and> zones m = zm"
    by (rule get_module_zones_Inr [OF g])
qed

lemma post_open_session:
  assumes "truthy (authenticated s)" and "\<not> session_closed s"
  shows "session (snd (post E path dat s)) =
     session s @ [\<lparr>req_method = ''POST'', url = base_url s @ lstrip_slash path,
                   req_headers = headers s, body = Some dat, timeout = 30\<rparr>]"
  using assms
  by (simp add: post_def handle_api_errors_auth_snd make_request_def Let_def DEFAULT_TIMEOUT_def
      split: http_outcome.splits json_outcome.splits)

lemma lstrip_users: "lstrip_slash (''users/'' @ rest) = ''users/'' @ rest"
  by (simp add: lstrip_slash_def)

text \<open>The product is rounded to binary64 before it is truncated: for the double nearest
  to 0.7 the code sends 7, where the exact tenfold of that double truncates to 6.\<close>

lemma rounded_product_example:
  "py_int (float_mul_10 (Finite 6305039478318694 (- 53))) = Inr 7
   \<and> tenfold_truncated 6305039478318694 (- 53) = 6"
  by (simp add: round_binary64_def round_shift_def bitlen.simps Let_def tenfold_truncated_def)

lemma example_target: "py_int (float_mul_10 (Finite 43 (- 1))) = Inr 215"
  by (simp add: round_binary64_def round_shift_def bitlen.simps Let_def)

subsection \<open>The filter and the validity test\<close>














subsection \<open>The request of \<open>set_const_temp\<close>\<close>

lemma set_const_temp_posts:
  assumes g: "get_module_zones E module_udid s = (Inr zm, s1)"
    and z: "zm (KInt zone_id) = Some zone_data"
    and md: "py_getitem zone_data ''mode'' = Inr mode"
    and mi: "py_getitem mode ''id'' = Inr mode_id"
    and t: "py_int (float_mul_10 target_temp) = Inr n"
  shows "session (snd (set_const_temp E module_udid zone_id target_temp s)) =
     session s1 @
       [\<lparr>req_method = ''POST'',
         url = base_url s @ ''users/'' @ fmt_opt (user_id s) @ ''/modules/'' @ module_udid
               @ ''/zones'',
         req_headers = headers s,
         body = Some (JObj [(''mode'',
                  JObj [(''id'', mode_id), (''parentId'', JInt zone_id),
                        (''mode'', JStr ''constantTemp''), (''constTempTime'', JInt 60),
                        (''setTemperature'', JInt n), (''scheduleIndex'', JInt 0)])]),
         timeout = 30\<rparr>]"
proof -
  note after = get_module_zones_after [OF g]
  from after(6) obtain m where m: "modules s1 module_udid = Some m" "zones m = zm" by blast
  from handle_api_errors_Inr [OF g [unfolded get_module_zones_def]]
  have a: "truthy (authenticated s)" by simp
  have d: "const_temp_data zone_data zone_id target_temp =
     Inr (JObj [(''mode'',
                  JObj [(''id'', mode_id), (''parentId'', JInt zone_id),
                        (''mode'', JStr ''constantTemp''), (''constTempTime'', JInt 60),
                        (''setTemperature'', JInt n), (''scheduleIndex'', JInt 0)])])"
    by (simp add: const_temp_data_def md mi t)
  have "snd (set_const_temp E module_udid zone_id target_temp s) =
      snd (post E (''users/'' @ fmt_opt (user_id s1) @ ''/modules/'' @ module_udid @ ''/zones'')
             (JObj [(''mode'',
                  JObj [(''id'', mode_id), (''parentId'', JInt zone_id),
                        (''mode'', JStr ''constantTemp''), (''constTempTime'', JInt 60),
                        (''setTemperature'', JInt n), (''scheduleIndex'', JInt 0)])]) s1)"
    by (simp add: set_const_temp_def handle_api_errors_auth_snd [OF a] set_const_temp_body_def
        g m z d)
  then show "session (snd (set_const_temp E module_udid zone_id target_temp s)) =
     session s1 @
       [\<lparr>req_method = ''POST'',
         url = base_url s @ ''users/'' @ fmt_opt (user_id s) @ ''/modules/'' @ module_udid
               @ ''/zones'',
         req_headers = headers s,
         body = Some (JObj [(''mode'',
                  JObj [(''id'', mode_id), (''parentId'', JInt zone_id),
                        (''mode'', JStr ''constantTemp''), (''constTempTime'', JInt 60),
                        (''setTemperature'', JInt n), (''scheduleIndex'', JInt 0)])]),
         timeout = 30\<rparr>]"
    using post_open_session [OF after(1) after(2)] lstrip_users after(3,4,5)
    by simp
qed

subsection \<open>Rounding to 53 bits, and records of another shape\<close>

lemma bitlen_upper: "n < 2 ^ bitlen n"
proof (induction n rule: bitlen.induct)
  case (1 n)
  show ?case
  proof (cases "n = 0")
    case True
    then show ?thesis by (simp add: bitlen.simps)
  next
    case False
    from 1 [OF False] have "n div 2 < 2 ^ bitlen (n div 2)" .
    then have "n < 2 * 2 ^ bitlen (n div 2)" by linarith
    then show ?thesis using False by (subst bitlen.simps) simp
  qed
qed

lemma bitlen_lower: "0 < n \<Longrightarrow> 2 ^ (bitlen n - 1) \<le> n"
proof (induction n rule: bitlen.induct)
  case (1 n)
  then have n0: "n \<noteq> 0" by simp
  show ?case
  proof (cases "n div 2 = 0")
    case True
    then have "bitlen n = 1" using n0 by (subst bitlen.simps) (simp add: bitlen.simps)
    then show ?thesis using 1(2) by simp
  next
    case False
    then have pos: "0 < n div 2" by simp
    from 1(1) [OF n0 pos] have ih: "2 ^ (bitlen (n div 2) - 1) \<le> n div 2" .
    have b: "0 < bitlen (n div 2)" using False by (subst bitlen.simps) simp
    have "bitlen n = Suc (bitlen (n div 2))" using n0 by (subst bitlen.simps) simp
    then have "(2::nat) ^ (bitlen n - 1) = 2 * 2 ^ (bitlen (n div 2) - 1)"
      using b by (cases "bitlen (n div 2)") simp_all
    also have "\<dots> \<le> 2 * (n div 2)" using ih by simp
    also have "\<dots> \<le> n" by simp
    finally show ?thesis .
  qed
qed

lemma round_shift_nearest_even: "nearest_even M k (round_shift M k)"
proof -
  define P :: int where "P = 2 ^ k"
  define q0 where "q0 = M div P"
  define r where "r = M mod P"
  have P: "0 < P" by (simp add: P_def)
  have M: "M = q0 * P + r" by (simp add: q0_def r_def)
  have r: "0 \<le> r" "r < P" using P by (simp_all add: r_def)
  show ?thesis
  proof (cases "2 * r > P \<or> (2 * r = P \<and> odd q0)")
    case True
    then have rs: "round_shift M k = q0 + 1"
      by (simp add: round_shift_def Let_def P_def q0_def r_def)
    have d: "(q0 + 1) * P - M = P - r" by (simp add: M algebra_simps)
    show ?thesis
      unfolding nearest_even_def rs P_def [symmetric] d
      using True r by auto
  next
    case False
    then have rs: "round_shift M k = q0"
      by (simp add: round_shift_def Let_def P_def q0_def r_def)
    have d: "q0 * P - M = - r" by (simp add: M)
    show ?thesis
      unfolding nearest_even_def rs P_def [symmetric] d
      using False r by auto
  qed
qed

lemma nearest_even_unique:
  assumes "nearest_even M k q" and "nearest_even M k q'"
  shows "q = q'"
proof -
  define P :: int where "P = 2 ^ k"
  define a where "a = q * P - M"
  define b where "b = q' * P - M"
  have P: "0 < P" by (simp add: P_def)
  from assms have a: "2 * \<bar>a\<bar> \<le> P" "2 * \<bar>a\<bar> = P \<longrightarrow> even q"
    and b: "2 * \<bar>b\<bar> \<le> P" "2 * \<bar>b\<bar> = P \<longrightarrow> even q'"
    by (simp_all add: nearest_even_def P_def a_def b_def)
  have eq: "(q - q') * P = a - b" by (simp add: a_def b_def algebra_simps)
  have "\<bar>a - b\<bar> \<le> P" using a(1) b(1) by linarith
  then have "\<bar>q - q'\<bar> * P \<le> 1 * P" using P by (simp add: abs_mult flip: eq)
  then have d: "\<bar>q - q'\<bar> \<le> 1" using P by (simp only: mult_le_cancel_right)
  show ?thesis
  proof (rule ccontr)
    assume ne: "q \<noteq> q'"
    with d have one: "\<bar>q - q'\<bar> = 1" by linarith
    then have "\<bar>(q - q') * P\<bar> = P" using P by (simp add: abs_mult)
    then have "\<bar>a - b\<bar> = P" by (simp add: eq)
    with a(1) b(1) have "2 * \<bar>a\<bar> = P" "2 * \<bar>b\<bar> = P" by linarith+
    with a(2) b(2) have "even q" "even q'" by simp_all
    then have "even (q - q')" by simp
    with one show False by presburger
  qed
qed

lemma mantissa_shift_unique:
  assumes "mantissa_shift M k" and "mantissa_shift M k'"
  shows "k = k'"
proof (rule ccontr)
  assume ne: "k \<noteq> k'"
  have aux: "False" if lt: "j < j'" and a: "mantissa_shift M j" and b: "mantissa_shift M j'" for j j'
  proof -
    from lt b have "(2::int) ^ (52 + j') \<le> \<bar>M\<bar>" by (auto simp: mantissa_shift_def)
    moreover from a have "\<bar>M\<bar> < 2 ^ (53 + j)" by (simp add: mantissa_shift_def)
    moreover have "(2::int) ^ (53 + j) \<le> 2 ^ (52 + j')"
      using lt by (intro power_increasing) simp_all
    ultimately show False by linarith
  qed
  from ne consider "k < k'" | "k' < k" by linarith
  then show False using aux assms by cases blast+
qed

lemma float_mul_10_rounds:
  assumes m: "\<bar>m\<bar> < 2 ^ 53" and e1: "- 1074 \<le> e" and e2: "e \<le> 900"
  shows "\<exists>k q. mantissa_shift (m * 10) k \<and> nearest_even (m * 10) k q
           \<and> float_mul_10 (Finite m e) = Finite q (e + int k)"
proof -
  define M where "M = m * 10"
  define b where "b = bitlen (nat \<bar>M\<bar>)"
  define k where "k = b - 53"
  define q where "q = round_shift M k"
  define P :: int where "P = 2 ^ k"
  have P: "0 < P" by (simp add: P_def)
  have up: "\<bar>M\<bar> < 2 ^ b"
  proof -
    have "nat \<bar>M\<bar> < 2 ^ b" unfolding b_def by (rule bitlen_upper)
    then have "int (nat \<bar>M\<bar>) < int (2 ^ b)" by (simp only: of_nat_less_iff)
    then show ?thesis by simp
  qed
  have M57: "nat \<bar>M\<bar> < 2 ^ 57"
  proof -
    have "\<bar>M\<bar> < 10 * 2 ^ 53" using m by (simp add: M_def abs_mult)
    then have "\<bar>M\<bar> < 2 ^ 57" by simp
    then show ?thesis by (simp add: nat_less_iff)
  qed
  have b57: "b \<le> 57" unfolding b_def by (rule bitlen_bound [OF M57])
  then have k4: "k \<le> 4" by (simp add: k_def)
  have kk: "nat (max (max (int (bitlen (nat \<bar>M\<bar>)) - 53) (- 1074 - e)) 0) = k"
    using e1 by (simp add: k_def b_def)
  have bk: "b \<le> 53 + k" by (simp add: k_def)
  have s1: "\<bar>M\<bar> < 2 ^ (53 + k)"
  proof -
    have "(2::int) ^ b \<le> 2 ^ (53 + k)" using bk by (intro power_increasing) simp_all
    with up show ?thesis by linarith
  qed
  have s2: "k = 0 \<or> 2 ^ (52 + k) \<le> \<bar>M\<bar>"
  proof (cases "k = 0")
    case True
    then show ?thesis by simp
  next
    case False
    then have bb: "b = 53 + k" by (simp add: k_def)
    then have pos: "0 < nat \<bar>M\<bar>"
      using False by (cases "nat \<bar>M\<bar> = 0") (simp_all add: b_def bitlen.simps)
    from bitlen_lower [OF pos] have "2 ^ (b - 1) \<le> nat \<bar>M\<bar>" by (simp add: b_def)
    then have "int (2 ^ (b - 1)) \<le> int (nat \<bar>M\<bar>)" by (simp only: of_nat_le_iff)
    then have "(2::int) ^ (b - 1) \<le> \<bar>M\<bar>" by simp
    moreover have "b - 1 = 52 + k" using bb by simp
    ultimately show ?thesis by simp
  qed
  have ms: "mantissa_shift M k" using s1 s2 by (simp add: mantissa_shift_def)
  have ne: "nearest_even M k q" unfolding q_def by (rule round_shift_nearest_even)
  have q54: "nat \<bar>q\<bar> < 2 ^ 54"
  proof -
    define d where "d = q * P - M"
    from ne have d: "2 * \<bar>d\<bar> \<le> P" by (simp add: nearest_even_def P_def d_def)
    have MP: "\<bar>M\<bar> < 2 ^ 53 * P" using s1 by (simp add: P_def power_add)
    have "q * P = M + d" by (simp add: d_def)
    then have tri: "\<bar>q * P\<bar> \<le> \<bar>M\<bar> + \<bar>d\<bar>" by simp
    define X where "X = 2 ^ 53 * P"
    have x1: "\<bar>M\<bar> < X" using MP by (simp add: X_def)
    have x2: "P \<le> X" using P by (simp add: X_def)
    have "\<bar>q * P\<bar> < 2 * X" using tri d x1 x2 P by linarith
    then have "\<bar>q * P\<bar> < 2 ^ 54 * P" by (simp add: X_def)
    then have "\<bar>q\<bar> * P < 2 ^ 54 * P" using P by (simp add: abs_mult)
    then have "\<bar>q\<bar> < 2 ^ 54" using P by (simp only: mult_less_cancel_right)
    then show ?thesis by (simp add: nat_less_iff)
  qed
  have "bitlen (nat \<bar>q\<bar>) \<le> 54" by (rule bitlen_bound [OF q54])
  then have no: "\<not> int (bitlen (nat \<bar>q\<bar>)) + (e + int k) > 1024"
    using e2 k4 by simp
  have "float_mul_10 (Finite m e) = Finite q (e + int k)"
    using no by (simp add: round_binary64_def Let_def kk [unfolded M_def] q_def M_def)
  with ms ne show ?thesis unfolding M_def by blast
qed

lemma py_int_dyadic: "py_int (Finite q x) = Inr (dyadic_truncated q x)"
  by (simp add: dyadic_truncated_def)

lemma example_zone_mode:
  "py_getitem example_zone ''mode'' = Inr (JObj [(''id'', JInt 77)])"
  "py_getitem (JObj [(''id'', JInt 77)]) ''id'' = Inr (JInt 77)"
  by (simp_all add: example_zone_def)

lemma shift_22_2: "mantissa_shift (6248744482976563 * 10) 3"
  by (simp add: mantissa_shift_def)

lemma nearest_22_2: "nearest_even (6248744482976563 * 10) 3 7810930603720704"
  by (simp add: nearest_even_def)

lemma target_22_2: "py_int (float_mul_10 (Finite 6248744482976563 (- 48))) = Inr 222"
  by (simp add: round_binary64_def round_shift_def bitlen.simps Let_def)





section \<open>The properties\<close>

subsection \<open>Calls without authentication\<close>

text \<open>
  C2, as the code has it.  Every decorated method (\<open>get\<close>, \<open>post\<close>, \<open>list_modules\<close>,
  \<open>get_module_data\<close>, \<open>get_translations\<close>, \<open>get_module_zones\<close>, \<open>get_module_tiles\<close>,
  \<open>module_data\<close>, \<open>set_const_temp\<close>, \<open>set_zone\<close>) called while the session is not
  authenticated raises \<^verbatim>\<open>TechError(401, "Not authenticated")\<close> and leaves the object as it
  was, so no request has been sent.  The exception is of the base class \<open>TechError\<close>; it is
  not a \<open>TechLoginError\<close>.
\<close>

theorem unauthenticated_calls_fail:
  assumes "\<not> truthy (authenticated s)"
  shows "get E path s = (Inl (TechError 401 ''Not authenticated''), s)
   \<and> post E path dat s = (Inl (TechError 401 ''Not authenticated''), s)
   \<and> list_modules E s = (Inl (TechError 401 ''Not authenticated''), s)
   \<and> get_module_data E module_udid s = (Inl (TechError 401 ''Not authenticated''), s)
   \<and> get_translations E language s = (Inl (TechError 401 ''Not authenticated''), s)
   \<and> get_module_zones E module_udid s = (Inl (TechError 401 ''Not authenticated''), s)
   \<and> get_module_tiles E module_udid s = (Inl (TechError 401 ''Not authenticated''), s)
   \<and> module_data E now module_udid s = (Inl (TechError 401 ''Not authenticated''), s)
   \<and> set_const_temp E module_udid zone_id target_temp s
        = (Inl (TechError 401 ''Not authenticated''), s)
   \<and> set_zone E module_udid zone_id on s = (Inl (TechError 401 ''Not authenticated''), s)
   \<and> is_TechError (TechError 401 ''Not authenticated'')
   \<and> \<not> is_TechLoginError (TechError 401 ''Not authenticated'')"
  using assms
  by (simp add: get_def post_def list_modules_def get_module_data_def get_translations_def
      get_module_zones_def get_module_tiles_def module_data_def set_const_temp_def set_zone_def
      handle_api_errors_unauth)

theorem unauthenticated_calls_fail_witness:
  "\<not> truthy (authenticated (init None None TECH_API_URL))
   \<and> module_data (answering JNull) (Finite 0 0) ''m1'' (init None None TECH_API_URL)
       = (Inl (TechError 401 ''Not authenticated''), init None None TECH_API_URL)
   \<and> session (snd (set_zone (answering JNull) ''m1'' 7 True (init None None TECH_API_URL))) = []"
proof -
  have h: "\<not> truthy (authenticated (init None None TECH_API_URL))"
    by (simp add: init_def)
  have i: "session (init None None TECH_API_URL) = []"
    by (simp add: init_def)
  show ?thesis
    using h i
      unauthenticated_calls_fail [OF h, of "answering JNull" _ _ "''m1''" _ "Finite 0 0" 7 _ True]
    by simp
qed

text \<open>
  The claim names the exception of the pre-check AuthenticationError, the class the
  coordinator maps to a re-authentication (\<open>TechLoginError\<close>).  On a client built without
  credentials, \<open>module_data\<close> raises a \<open>TechError\<close> that is no \<open>TechLoginError\<close>.
\<close>

theorem unauthenticated_error_class_counterexample:
  "\<not> truthy (authenticated (init None None TECH_API_URL))
   \<and> fst (module_data (answering JNull) (Finite 0 0) ''m1'' (init None None TECH_API_URL))
       = Inl (TechError 401 ''Not authenticated'')
   \<and> \<not> is_TechLoginError (TechError 401 ''Not authenticated'')"
  by (simp add: init_def module_data_def handle_api_errors_unauth)

subsection \<open>Who changes the credentials\<close>

text \<open>
  C7, as the code has it.  No method other than \<open>authenticate\<close> changes the user id, the
  token or the authenticated flag of an object: the decorated methods, \<open>get_zone\<close>,
  \<open>get_tile\<close>, \<open>clear_module_cache\<close> and \<open>close\<close> leave the three as they were
  (\<open>is_authenticated\<close> and \<open>get_module_last_update\<close> return a value and no object).  The
  constructor establishes them: given a non-empty user id and a non-empty token, the new
  object holds both and is authenticated; otherwise it holds none and is not.
\<close>

theorem credentials_frame:
  "credentials (snd (get E path s)) = credentials s
   \<and> credentials (snd (post E path dat s)) = credentials s
   \<and> credentials (snd (list_modules E s)) = credentials s
   \<and> credentials (snd (get_module_data E module_udid s)) = credentials s
   \<and> credentials (snd (get_translations E language s)) = credentials s
   \<and> credentials (snd (get_module_zones E module_udid s)) = credentials s
   \<and> credentials (snd (get_module_tiles E module_udid s)) = credentials s
   \<and> credentials (snd (module_data E now module_udid s)) = credentials s
   \<and> credentials (snd (get_zone E module_udid zone_id s)) = credentials s
   \<and> credentials (snd (get_tile E module_udid tile_id s)) = credentials s
   \<and> credentials (snd (set_const_temp E module_udid zone_id target_temp s)) = credentials s
   \<and> credentials (snd (set_zone E module_udid zone_id on s)) = credentials s
   \<and> credentials (clear_module_cache cleared s) = credentials s
   \<and> credentials (close s) = credentials s
   \<and> credentials (init (Some u) (Some t) url0) =
        (if u \<noteq> [] \<and> t \<noteq> [] then (Some u, JStr t, JBool True) else (None, JNull, JBool False))
   \<and> credentials (init None tok url0) = (None, JNull, JBool False)
   \<and> credentials (init uid None url0) = (None, JNull, JBool False)"
proof -
  have "credentials (clear_module_cache cleared s) = credentials s"
    by (simp add: clear_module_cache_def credentials_def split: option.splits)
  moreover have "credentials (close s) = credentials s"
    by (simp add: close_def credentials_def)
  moreover have "credentials (init (Some u) (Some t) url0) =
        (if u \<noteq> [] \<and> t \<noteq> [] then (Some u, JStr t, JBool True) else (None, JNull, JBool False))"
    by (simp add: init_def credentials_def)
  moreover have "credentials (init None tok url0) = (None, JNull, JBool False)"
    by (simp add: init_def credentials_def)
  moreover have "credentials (init uid None url0) = (None, JNull, JBool False)"
    by (simp add: init_def credentials_def split: option.splits)
  ultimately show ?thesis
    by (simp add: session_only_credentials get_session_only post_session_only
        list_modules_session_only get_module_data_session_only get_translations_session_only
        set_zone_session_only credentials_get_module_zones credentials_get_module_tiles
        credentials_module_data get_zone_snd get_tile_snd credentials_set_const_temp)
qed

text \<open>
  The claim makes \<open>authenticate\<close> the sole path by which credentials are established and
  the session becomes authenticated.  The constructor is another: the object it builds
  from a user id and a token is authenticated and has sent no request.
\<close>

theorem constructor_credentials_counterexample:
  "authenticated (init (Some ''u1'') (Some ''t1'') TECH_API_URL) = JBool True
   \<and> user_id (init (Some ''u1'') (Some ''t1'') TECH_API_URL) = Some ''u1''
   \<and> token (init (Some ''u1'') (Some ''t1'') TECH_API_URL) = JStr ''t1''
   \<and> session (init (Some ''u1'') (Some ''t1'') TECH_API_URL) = []"
  by (simp add: init_def)

subsection \<open>Which refresh stamps a module\<close>

text \<open>
  C10.  \<open>get_module_zones\<close> and \<open>get_module_tiles\<close> leave the last-update time of every
  module as it was, whatever the server answers: \<open>get_module_last_update\<close> returns after
  the call what it returned before, for the module fetched and for every other one.
  \<open>module_data\<close> is the refresh that stamps: whenever it returns a record, the record and
  the cache carry the time read at its start.
\<close>

theorem unguarded_fetches_keep_last_update:
  "get_module_last_update u (snd (get_module_zones E module_udid s)) = get_module_last_update u s
   \<and> get_module_last_update u (snd (get_module_tiles E module_udid s)) = get_module_last_update u s
   \<and> (\<forall>m'. fst (module_data E now module_udid s) = Inr m' \<longrightarrow>
         last_update m' = Some now
         \<and> get_module_last_update module_udid (snd (module_data E now module_udid s)) = Some now)"
  using module_data_Inr_stamp [of E now module_udid s]
  by (simp add: last_update_after_get_module_zones last_update_after_get_module_tiles)

theorem unguarded_fetches_keep_last_update_witness:
  "fst (module_data (answering example_payload) (Finite 5 0) ''m1'' example_client) =
     Inr \<lparr>last_update = Some (Finite 5 0), zones = [KInt 1 \<mapsto> example_zone],
          tiles = [KInt 10 \<mapsto> JObj [(''id'', JInt 10), (''visibility'', JBool True)]]\<rparr>
   \<and> get_module_last_update ''m1''
        (snd (module_data (answering example_payload) (Finite 5 0) ''m1'' example_client))
       = Some (Finite 5 0)
   \<and> get_module_last_update ''m1''
        (snd (get_module_zones (answering example_payload) ''m1''
           (snd (module_data (answering example_payload) (Finite 5 0) ''m1'' example_client))))
       = Some (Finite 5 0)"
  using example_module_data [of "Finite 5 0"]
    unguarded_fetches_keep_last_update
      [of "''m1''" "answering example_payload" "''m1''" example_client "Finite 5 0"]
    unguarded_fetches_keep_last_update
      [of "''m1''" "answering example_payload" "''m1''"
          "snd (module_data (answering example_payload) (Finite 5 0) ''m1'' example_client)"]
  by simp

subsection \<open>Looking up one zone or one tile\<close>

text \<open>
  C9.  \<open>get_zone\<close> first runs the refresh \<open>get_module_zones\<close>.  When the refresh raises,
  \<open>get_zone\<close> raises the same exception from the same state.  When the refresh returns
  the module's zones, which are then the cached zones of the module, \<open>get_zone\<close> returns
  the entry cached under the id, and raises \<open>KeyError\<close> when there is none; the state is
  the one the refresh left.  \<open>get_tile\<close> does the same with \<open>get_module_tiles\<close>.  A
  \<open>KeyError\<close> is neither a \<open>TechError\<close> nor a \<open>TechLoginError\<close>.
\<close>

theorem lookup_after_refresh:
  "(\<forall>e s1. get_module_zones E module_udid s = (Inl e, s1) \<longrightarrow>
       get_zone E module_udid zone_id s = (Inl e, s1))
   \<and> (\<forall>zm s1. get_module_zones E module_udid s = (Inr zm, s1) \<longrightarrow>
       map_option zones (modules s1 module_udid) = Some zm
       \<and> get_zone E module_udid zone_id s =
           (case zm (KInt zone_id) of
              None \<Rightarrow> (Inl (KeyError (''Zone '' @ str_int zone_id @ '' not found in module ''
                                       @ module_udid)), s1)
            | Some zone \<Rightarrow> (Inr zone, s1)))
   \<and> (\<forall>e s1. get_module_tiles E module_udid s = (Inl e, s1) \<longrightarrow>
       get_tile E module_udid tile_id s = (Inl e, s1))
   \<and> (\<forall>tm s1. get_module_tiles E module_udid s = (Inr tm, s1) \<longrightarrow>
       map_option tiles (modules s1 module_udid) = Some tm
       \<and> get_tile E module_udid tile_id s =
           (case tm (KInt tile_id) of
              None \<Rightarrow> (Inl (KeyError (''Tile '' @ str_int tile_id @ '' not found in module ''
                                       @ module_udid)), s1)
            | Some tile \<Rightarrow> (Inr tile, s1)))
   \<and> (\<forall>msg. \<not> is_TechError (KeyError msg) \<and> \<not> is_TechLoginError (KeyError msg))"
proof -
  have z1: "\<And>e s1. get_module_zones E module_udid s = (Inl e, s1) \<Longrightarrow>
       get_zone E module_udid zone_id s = (Inl e, s1)"
    by (simp add: get_zone_def)
  have z2: "\<And>zm s1. get_module_zones E module_udid s = (Inr zm, s1) \<Longrightarrow>
       map_option zones (modules s1 module_udid) = Some zm
       \<and> get_zone E module_udid zone_id s =
           (case zm (KInt zone_id) of
              None \<Rightarrow> (Inl (KeyError (''Zone '' @ str_int zone_id @ '' not found in module ''
                                       @ module_udid)), s1)
            | Some zone \<Rightarrow> (Inr zone, s1))"
  proof -
    fix zm s1
    assume g: "get_module_zones E module_udid s = (Inr zm, s1)"
    from get_module_zones_Inr [OF g] obtain m
      where m: "modules s1 module_udid = Some m" "zones m = zm" by blast
    then show "map_option zones (modules s1 module_udid) = Some zm
       \<and> get_zone E module_udid zone_id s =
           (case zm (KInt zone_id) of
              None \<Rightarrow> (Inl (KeyError (''Zone '' @ str_int zone_id @ '' not found in module ''
                                       @ module_udid)), s1)
            | Some zone \<Rightarrow> (Inr zone, s1))"
      by (simp add: get_zone_def g)
  qed
  have t1: "\<And>e s1. get_module_tiles E module_udid s = (Inl e, s1) \<Longrightarrow>
       get_tile E module_udid tile_id s = (Inl e, s1)"
    by (simp add: get_tile_def)
  have t2: "\<And>tm s1. get_module_tiles E module_udid s = (Inr tm, s1) \<Longrightarrow>
       map_option tiles (modules s1 module_udid) = Some tm
       \<and> get_tile E module_udid tile_id s =
           (case tm (KInt tile_id) of
              None \<Rightarrow> (Inl (KeyError (''Tile '' @ str_int tile_id @ '' not found in module ''
                                       @ module_udid)), s1)
            | Some tile \<Rightarrow> (Inr tile, s1))"
  proof -
    fix tm s1
    assume g: "get_module_tiles E module_udid s = (Inr tm, s1)"
    from get_module_tiles_Inr [OF g] obtain m
      where m: "modules s1 module_udid = Some m" "tiles m = tm" by blast
    then show "map_option tiles (modules s1 module_udid) = Some tm
       \<and> get_tile E module_udid tile_id s =
           (case tm (KInt tile_id) of
              None \<Rightarrow> (Inl (KeyError (''Tile '' @ str_int tile_id @ '' not found in module ''
                                       @ module_udid)), s1)
            | Some tile \<Rightarrow> (Inr tile, s1))"
      by (simp add: get_tile_def g)
  qed
  from z1 z2 t1 t2 show ?thesis by simp
qed

theorem lookup_after_refresh_witness:
  "fst (get_zone (answering example_payload) ''m1'' 1 example_client) = Inr example_zone
   \<and> fst (get_zone (answering example_payload) ''m1'' 2 example_client)
       = Inl (KeyError ''Zone 2 not found in module m1'')
   \<and> fst (get_tile (answering example_payload) ''m1'' 10 example_client)
       = Inr (JObj [(''id'', JInt 10), (''visibility'', JBool True)])
   \<and> fst (get_tile (answering example_payload) ''m1'' 11 example_client)
       = Inl (KeyError ''Tile 11 not found in module m1'')
   \<and> fst (get_zone (answering example_payload) ''m1'' 1 (init None None TECH_API_URL))
       = Inl (TechError 401 ''Not authenticated'')"
proof -
  obtain s1 where z: "get_module_zones (answering example_payload) ''m1'' example_client =
     (Inr [KInt 1 \<mapsto> example_zone], s1)"
    using example_get_module_zones by blast
  obtain s2 where t: "get_module_tiles (answering example_payload) ''m1'' example_client =
     (Inr [KInt 10 \<mapsto> JObj [(''id'', JInt 10), (''visibility'', JBool True)]], s2)"
    using example_get_module_tiles by blast
  have u: "get_module_zones (answering example_payload) ''m1'' (init None None TECH_API_URL) =
     (Inl (TechError 401 ''Not authenticated''), init None None TECH_API_URL)"
    by (simp add: get_module_zones_def handle_api_errors_unauth init_def)
  show ?thesis
    using z t u
      lookup_after_refresh [of "answering example_payload" "''m1''" example_client 1 10]
      lookup_after_refresh [of "answering example_payload" "''m1''" example_client 2 11]
      lookup_after_refresh [of "answering example_payload" "''m1''" "init None None TECH_API_URL" 1 1]
    by (simp add: str_int_2)
qed

subsection \<open>The merge never removes an entry\<close>

text \<open>
  C1.  Each of the three refreshes (\<open>module_data\<close>, \<open>get_module_zones\<close>,
  \<open>get_module_tiles\<close>) merges monotonically, whatever the server answers: every module
  cached before is cached afterwards with every zone id and every tile id it had, and an
  id that the fetched payload does not contain keeps the entry it had.
\<close>

theorem refresh_merges_monotonically:
  "merged_monotonically E module_udid s (snd (module_data E now module_udid s))
   \<and> merged_monotonically E module_udid s (snd (get_module_zones E module_udid s))
   \<and> merged_monotonically E module_udid s (snd (get_module_tiles E module_udid s))"
  by (simp add: monotonic_module_data monotonic_get_module_zones monotonic_get_module_tiles)

theorem refresh_merges_monotonically_witness:
  "modules example_cached ''m1'' =
     Some \<lparr>last_update = Some (Finite 5 0), zones = [KInt 1 \<mapsto> example_zone],
           tiles = [KInt 10 \<mapsto> JObj [(''id'', JInt 10), (''visibility'', JBool True)]]\<rparr>
   \<and> (\<exists>m'. modules (snd (module_data (answering later_payload) (Finite 9 0) ''m1'' example_cached))
              ''m1'' = Some m'
         \<and> zones m' (KInt 1) = Some example_zone
         \<and> tiles m' (KInt 10) = Some (JObj [(''id'', JInt 10), (''visibility'', JBool True)]))"
proof -
  let ?m = "\<lparr>last_update = Some (Finite 5 0), zones = [KInt 1 \<mapsto> example_zone],
           tiles = [KInt 10 \<mapsto> JObj [(''id'', JInt 10), (''visibility'', JBool True)]]\<rparr>"
  from refresh_merges_monotonically
    [of "answering later_payload" "''m1''" example_cached "Finite 9 0"]
  have "merged_monotonically (answering later_payload) ''m1'' example_cached
          (snd (module_data (answering later_payload) (Finite 9 0) ''m1'' example_cached))"
    by simp
  with example_cached_fields(3) obtain m' where
    m': "modules (snd (module_data (answering later_payload) (Finite 9 0) ''m1'' example_cached))
              ''m1'' = Some m'"
    and z: "\<forall>p k. fst (get_module_data (answering later_payload) ''m1''
                         (initialize_module_data ''m1'' example_cached)) = Inr p
                 \<longrightarrow> k \<notin> set (payload_zone_ids p) \<longrightarrow> zones m' k = zones ?m k"
    and t: "\<forall>p k. fst (get_module_data (answering later_payload) ''m1''
                         (initialize_module_data ''m1'' example_cached)) = Inr p
                 \<longrightarrow> k \<notin> set (payload_tile_ids p) \<longrightarrow> tiles m' k = tiles ?m k"
    unfolding merged_monotonically_def by blast
  from z later_fetch have "zones m' (KInt 1) = zones ?m (KInt 1)"
    by (simp add: later_payload_ids)
  moreover from t later_fetch have "tiles m' (KInt 10) = tiles ?m (KInt 10)"
    by (simp add: later_payload_ids)
  ultimately show ?thesis using m' example_cached_fields(3) by simp
qed

subsection \<open>Refreshing again with the same payload\<close>

text \<open>
  C4.  Against a server that answers every request with status 200 and the payload \<open>p\<close>,
  the content of the cache (the zones and the tiles of every module) after one or more
  consecutive calls of \<open>module_data\<close> for a module is the content after the first of
  them.  This holds from every state of the object, whichever times the clock shows, and
  also when a record of \<open>p\<close> makes every one of the calls raise.
\<close>

theorem refresh_is_idempotent:
  assumes "\<forall>rq. net E rq = Response 200 txt (Decoded p)"
  shows "cache_content (refresh_times E (now # nows) module_udid s)
       = cache_content (snd (module_data E now module_udid s))"
proof (induction nows arbitrary: s now)
  case Nil
  show ?case by simp
next
  case (Cons n2 rest)
  have "cache_content (refresh_times E (now # n2 # rest) module_udid s)
      = cache_content (refresh_times E (n2 # rest) module_udid (snd (module_data E now module_udid s)))"
    by simp
  also have "\<dots> = cache_content (snd (module_data E n2 module_udid (snd (module_data E now module_udid s))))"
    by (rule Cons.IH)
  also have "\<dots> = cache_content (snd (module_data E now module_udid s))"
    by (rule module_data_twice [OF assms])
  finally show ?case .
qed

theorem refresh_is_idempotent_witness:
  "cache_content
     (refresh_times (answering example_payload) [Finite 5 0, Finite 6 0, Finite 7 0] ''m1''
        example_client) ''m1''
   = Some ([KInt 1 \<mapsto> example_zone],
           [KInt 10 \<mapsto> JObj [(''id'', JInt 10), (''visibility'', JBool True)]])"
proof -
  have one: "cache_content
      (snd (module_data (answering example_payload) (Finite 5 0) ''m1'' example_client)) ''m1''
    = Some ([KInt 1 \<mapsto> example_zone],
           [KInt 10 \<mapsto> JObj [(''id'', JInt 10), (''visibility'', JBool True)]])"
    by (simp add: cache_after_module_data [OF answering_constant] example_client_fields
        refresh_module_zones refresh_module_tiles example_zones_part example_tiles_part
        module_or_new_def)
  show ?thesis
    using refresh_is_idempotent [OF answering_constant,
        of example_payload "Finite 5 0" "[Finite 6 0, Finite 7 0]" "''m1''" example_client] one
    by simp
qed

subsection \<open>A rejected login\<close>

text \<open>
  C6, as the code has it.  On an open session \<open>authenticate\<close> sends one request.  When
  the server answers it with a status other than 200, the call raises
  \<open>TechLoginError\<close> with status 401 and the object is as before but for the request
  sent: user id, token and the authenticated flag keep their values, so a session that was
  not authenticated is not authenticated afterwards.  When the server answers with status
  200 and a JSON object whose \<^verbatim>\<open>"authenticated"\<close> is absent or false, the call raises
  nothing: it returns that false value and stores it as the flag, so the session is not
  authenticated afterwards.
\<close>

theorem authenticate_rejected:
  assumes "\<not> session_closed s"
  shows "(\<forall>status txt js.
            net E (authentication_request s username password) = Response status txt js
            \<and> status \<noteq> 200 \<longrightarrow>
            authenticate E username password s =
              (Inl (TechLoginError 401 ''Login failed: Authentication failed''),
               s\<lparr>session := session s @ [authentication_request s username password]\<rparr>))
       \<and> (\<forall>txt result a.
            net E (authentication_request s username password) = Response 200 txt (Decoded result)
            \<and> py_get result ''authenticated'' (JBool False) = Inr a \<and> \<not> truthy a \<longrightarrow>
            authenticate E username password s =
              (Inr a,
               s\<lparr>session := session s @ [authentication_request s username password],
                  authenticated := a\<rparr>))"
  using assms
  by (simp add: authenticate_def make_request_authentication new_TechLoginError_def Let_def)

theorem authenticate_rejected_witness:
  "\<not> session_closed (init None None TECH_API_URL)
   \<and> fst (authenticate rejecting ''u1'' ''bad'' (init None None TECH_API_URL))
       = Inl (TechLoginError 401 ''Login failed: Authentication failed'')
   \<and> authenticated (snd (authenticate rejecting ''u1'' ''bad'' (init None None TECH_API_URL)))
       = JBool False
   \<and> authenticate (answering (JObj [(''authenticated'', JBool False)])) ''u1'' ''bad''
        (init None None TECH_API_URL)
       = (Inr (JBool False),
          (init None None TECH_API_URL)
            \<lparr>session := [authentication_request (init None None TECH_API_URL) ''u1'' ''bad''],
             authenticated := JBool False\<rparr>)"
proof -
  have o: "\<not> session_closed (init None None TECH_API_URL)"
    by (simp add: init_def)
  have i: "authenticated (init None None TECH_API_URL) = JBool False"
    "session (init None None TECH_API_URL) = []"
    by (simp_all add: init_def)
  have r: "net rejecting (authentication_request (init None None TECH_API_URL) ''u1'' ''bad'')
      = Response 401 ''unauthorized'' (Decoded JNull)"
    by (simp add: rejecting_def)
  have a: "net (answering (JObj [(''authenticated'', JBool False)]))
        (authentication_request (init None None TECH_API_URL) ''u1'' ''bad'')
      = Response 200 ''ok'' (Decoded (JObj [(''authenticated'', JBool False)]))"
    by (simp add: answering_def)
  show ?thesis
    using o i r a
      authenticate_rejected [OF o, of rejecting "''u1''" "''bad''"]
      authenticate_rejected [OF o, of "answering (JObj [(''authenticated'', JBool False)])"
        "''u1''" "''bad''"]
    by simp
qed

text \<open>
  The claim has every rejected login raise AuthenticationError and leave the session
  unauthenticated.  A client built from stored credentials whose login is rejected with
  status 401 stays authenticated; and a login answered with status 200 and
  \<^verbatim>\<open>{"authenticated": false}\<close> returns \<^verbatim>\<open>False\<close> without raising.
\<close>

theorem authenticate_rejected_counterexample:
  "fst (authenticate rejecting ''u1'' ''bad'' example_client)
     = Inl (TechLoginError 401 ''Login failed: Authentication failed'')
   \<and> authenticated (snd (authenticate rejecting ''u1'' ''bad'' example_client)) = JBool True
   \<and> fst (authenticate (answering (JObj [(''authenticated'', JBool False)])) ''u1'' ''bad''
          (init None None TECH_API_URL)) = Inr (JBool False)"
proof -
  have o: "\<not> session_closed example_client" "\<not> session_closed (init None None TECH_API_URL)"
    by (simp_all add: example_client_def init_def)
  have "authenticated example_client = JBool True"
    by (simp add: example_client_def init_def)
  then show ?thesis
    by (simp add: authenticate_def make_request_authentication [OF o(1)]
        make_request_authentication [OF o(2)] rejecting_def answering_def
        new_TechLoginError_def)
qed

subsection \<open>Which zone records enter the cache\<close>




subsection \<open>The temperature that \<open>set_const_temp\<close> posts\<close>

text \<open>
  C8, as the code has it.  Let the refresh at the start of \<open>set_const_temp\<close> return, the
  zone be cached with a mode id, and the target be a double \<open>m * 2 ^ e\<close> of magnitude below
  \<open>2 ^ 953\<close>.  Then the call sends one more request: a POST to the zones of the module
  whose body is the mode change with the zone's mode id, the zone id as parent, 60 as
  duration and, as \<^verbatim>\<open>setTemperature\<close>, the integer \<open>n\<close> of \<^verbatim>\<open>int(target_temp * 10)\<close>:
  ten times the target is rounded to a double, that is to 53 significant bits, to the
  nearest and on a tie to the even one, and the double is truncated towards zero.
  \<open>mantissa_shift\<close> and \<open>nearest_even\<close> state the rounding without the algorithm and
  determine \<open>k\<close> and \<open>q\<close>, hence \<open>n\<close>.  Whenever ten times the mantissa fits 53 bits
  nothing is rounded and \<open>n\<close> is the exact tenfold of the target truncated; 21.5 gives
  215.
\<close>

theorem const_temp_request:
  assumes g: "get_module_zones E module_udid s = (Inr zm, s1)"
    and z: "zm (KInt zone_id) = Some zone_data"
    and md: "py_getitem zone_data ''mode'' = Inr mode"
    and mi: "py_getitem mode ''id'' = Inr mode_id"
    and tt: "target_temp = Finite m e"
    and m53: "\<bar>m\<bar> < 2 ^ 53" and e1: "- 1074 \<le> e" and e2: "e \<le> 900"
  shows "\<exists>n k q.
     session (snd (set_const_temp E module_udid zone_id target_temp s)) =
       session s1 @
         [\<lparr>req_method = ''POST'',
           url = base_url s @ ''users/'' @ fmt_opt (user_id s) @ ''/modules/'' @ module_udid
                 @ ''/zones'',
           req_headers = headers s,
           body = Some (JObj [(''mode'',
                    JObj [(''id'', mode_id), (''parentId'', JInt zone_id),
                          (''mode'', JStr ''constantTemp''), (''constTempTime'', JInt 60),
                          (''setTemperature'', JInt n), (''scheduleIndex'', JInt 0)])]),
           timeout = 30\<rparr>]
     \<and> mantissa_shift (m * 10) k \<and> nearest_even (m * 10) k q
     \<and> n = dyadic_truncated q (e + int k)
     \<and> (\<bar>m * 10\<bar> < 2 ^ 53 \<longrightarrow> n = tenfold_truncated m e)"
proof -
  from float_mul_10_rounds [OF m53 e1 e2] obtain k q where
    ms: "mantissa_shift (m * 10) k" and ne: "nearest_even (m * 10) k q"
    and f: "float_mul_10 (Finite m e) = Finite q (e + int k)" by blast
  let ?n = "dyadic_truncated q (e + int k)"
  have t: "py_int (float_mul_10 target_temp) = Inr ?n"
    by (simp only: tt f py_int_dyadic)
  have ex: "\<bar>m * 10\<bar> < 2 ^ 53 \<longrightarrow> ?n = tenfold_truncated m e"
  proof
    assume small: "\<bar>m * 10\<bar> < 2 ^ 53"
    have "e \<le> 971" using e2 by simp
    from float_mul_10_exact [OF small e1 this]
    have "py_int (float_mul_10 (Finite m e)) = Inr (tenfold_truncated m e)"
      by (simp only: py_int_tenfold)
    with t tt show "?n = tenfold_truncated m e" by simp
  qed
  from set_const_temp_posts [OF g z md mi t] ms ne ex show ?thesis by blast
qed

theorem const_temp_request_witness:
  "body (last (session (snd (set_const_temp (answering example_payload) ''m1'' 1
                               (Finite 43 (- 1)) example_client)))) =
     Some (JObj [(''mode'',
             JObj [(''id'', JInt 77), (''parentId'', JInt 1),
                   (''mode'', JStr ''constantTemp''), (''constTempTime'', JInt 60),
                   (''setTemperature'', JInt 215), (''scheduleIndex'', JInt 0)])])
   \<and> body (last (session (snd (set_const_temp (answering example_payload) ''m1'' 1
                               (Finite 6248744482976563 (- 48)) example_client)))) =
     Some (JObj [(''mode'',
             JObj [(''id'', JInt 77), (''parentId'', JInt 1),
                   (''mode'', JStr ''constantTemp''), (''constTempTime'', JInt 60),
                   (''setTemperature'', JInt 222), (''scheduleIndex'', JInt 0)])])"
proof -
  obtain s1 where g: "get_module_zones (answering example_payload) ''m1'' example_client =
     (Inr [KInt 1 \<mapsto> example_zone], s1)"
    using example_get_module_zones by blast
  have z: "[KInt 1 \<mapsto> example_zone] (KInt 1) = Some example_zone" by simp
  have a: "\<bar>43::int\<bar> < 2 ^ 53" "- 1074 \<le> (- 1::int)" "(- 1::int) \<le> 900" by simp_all
  have b: "\<bar>6248744482976563::int\<bar> < 2 ^ 53" "- 1074 \<le> (- 48::int)" "(- 48::int) \<le> 900"
    by simp_all
  from const_temp_request [OF g z example_zone_mode refl a]
  have first: "body (last (session (snd (set_const_temp (answering example_payload) ''m1'' 1
                               (Finite 43 (- 1)) example_client)))) =
     Some (JObj [(''mode'',
             JObj [(''id'', JInt 77), (''parentId'', JInt 1),
                   (''mode'', JStr ''constantTemp''), (''constTempTime'', JInt 60),
                   (''setTemperature'', JInt 215), (''scheduleIndex'', JInt 0)])])"
    by (auto simp: tenfold_truncated_def)
  from const_temp_request [OF g z example_zone_mode refl b] obtain n k q where
    r: "session (snd (set_const_temp (answering example_payload) ''m1'' 1
                               (Finite 6248744482976563 (- 48)) example_client)) =
       session s1 @
         [\<lparr>req_method = ''POST'',
           url = base_url example_client @ ''users/'' @ fmt_opt (user_id example_client)
                 @ ''/modules/'' @ ''m1'' @ ''/zones'',
           req_headers = headers example_client,
           body = Some (JObj [(''mode'',
                    JObj [(''id'', JInt 77), (''parentId'', JInt 1),
                          (''mode'', JStr ''constantTemp''), (''constTempTime'', JInt 60),
                          (''setTemperature'', JInt n), (''scheduleIndex'', JInt 0)])]),
           timeout = 30\<rparr>]"
    and ms: "mantissa_shift (6248744482976563 * 10) k"
    and ne: "nearest_even (6248744482976563 * 10) k q"
    and n: "n = dyadic_truncated q (- 48 + int k)"
    by blast
  have k: "k = 3" by (rule mantissa_shift_unique [OF ms shift_22_2])
  have q: "q = 7810930603720704"
    by (rule nearest_even_unique [OF ne [unfolded k] nearest_22_2])
  have "n = 222" by (simp add: n k q dyadic_truncated_def)
  with r first show ?thesis by simp
qed

text \<open>
  The claim has the field equal the target scaled by ten and truncated.  For the double
  nearest to 22.2 the call posts 222, where ten times that double truncates to 221.
\<close>

theorem const_temp_exact_scaling_counterexample:
  "body (last (session (snd (set_const_temp (answering example_payload) ''m1'' 1
                               (Finite 6248744482976563 (- 48)) example_client)))) =
     Some (JObj [(''mode'',
             JObj [(''id'', JInt 77), (''parentId'', JInt 1),
                   (''mode'', JStr ''constantTemp''), (''constTempTime'', JInt 60),
                   (''setTemperature'', JInt 222), (''scheduleIndex'', JInt 0)])])
   \<and> tenfold_truncated 6248744482976563 (- 48) = 221"
proof -
  obtain s1 where g: "get_module_zones (answering example_payload) ''m1'' example_client =
     (Inr [KInt 1 \<mapsto> example_zone], s1)"
    using example_get_module_zones by blast
  have z: "[KInt 1 \<mapsto> example_zone] (KInt 1) = Some example_zone" by simp
  from set_const_temp_posts [OF g z example_zone_mode target_22_2]
  show ?thesis by (simp add: tenfold_truncated_def)
qed

end
